theory Spec2Isabelle
  imports Complex_Main
begin

section \<open>Data model\<close>

text \<open>
  The two classes of \<^verbatim>\<open>rx_calibration.hltcalibration\<close>, \<^verbatim>\<open>MCFitter\<close>
  (\<^verbatim>\<open>mc_fitter.py\<close>) and \<^verbatim>\<open>FitComponent\<close> (\<^verbatim>\<open>fit_component.py\<close>), are embedded
  method by method. Everything a method does besides returning a value is explicit:
  an exception is the \<open>Inl\<close> branch of the result, the mutated object is returned, and
  every call into a collaborator (ROOT, zfit, matplotlib, the logger, the file system)
  appends an event to a trace, so that "no minimisation was performed" is a statement
  about the trace.
\<close>

subsection \<open>Exceptions\<close>

datatype error =
    KeyError string
  | ValueError string
  | NotImplementedError string
  | AttributeError string
  | TypeError string
  | RuntimeError string

subsection \<open>The model engine: parameters and PDFs\<close>

text \<open>
  A zfit parameter, as far as the code touches it: \<^verbatim>\<open>par.name\<close>,
  \<^verbatim>\<open>par.set_value(val)\<close> and \<^verbatim>\<open>par.floating = ...\<close>. Floats are modelled by reals;
  the code only copies them. A parameter with limits refuses a value outside them:
  \<open>par_accepts\<close> is the test the parameter applies to a new value, and
  \<^verbatim>\<open>set_value\<close> raises \<^verbatim>\<open>ValueError\<close>, leaving the parameter as it was, when the
  test fails.
\<close>

record zpar =
  par_name :: string
  par_value :: real
  par_floating :: bool
  par_accepts :: "real \<Rightarrow> bool"

definition set_value :: "real \<Rightarrow> zpar \<Rightarrow> error + zpar" where
  "set_value val par =
     (if par_accepts par val then Inr (par\<lparr>par_value := val\<rparr>)
      else Inl (ValueError (par_name par)))"

text \<open>The name, the value and the floating flag of a parameter.\<close>

definition par_state :: "zpar \<Rightarrow> string \<times> real \<times> bool" where
  "par_state par = (par_name par, par_value par, par_floating par)"

text \<open>
  A PDF, as far as the code touches it: \<^verbatim>\<open>pdf.obs\<close> (the tuple of observable
  names), \<^verbatim>\<open>pdf.space\<close> (the observable space: the test whether a value lies within
  its limits) and the parameters of the model, floating or fixed.

  \<^verbatim>\<open>pdf.get_params()\<close>, called with its default \<^verbatim>\<open>floating=True\<close>, lists the
  floating parameters only. What it lists are the parameter objects of the model, not
  copies: a parameter is referred to by its position in \<open>pdf_params\<close>, and what the
  loop of \<^verbatim>\<open>_fix_tails\<close> does to a listed parameter is done to the model. The list is
  taken once, before the loop, so fixing a parameter inside the loop does not change
  which parameters are visited.
\<close>

record pdf =
  pdf_obs :: "string list"
  pdf_space :: "real \<Rightarrow> bool"
  pdf_params :: "zpar list"

definition get_params :: "pdf \<Rightarrow> nat list" where
  "get_params p = filter (\<lambda>i. par_floating (pdf_params p ! i)) [0..<length (pdf_params p)]"

subsection \<open>The parameter set\<close>

text \<open>
  Modelled from the spec: the class \<^verbatim>\<open>Parameter\<close> of
  \<^verbatim>\<open>rx_calibration.hltcalibration.parameter\<close> is not among the source files. The spec
  describes it as a mapping from parameter name to a pair (value, uncertainty) with unique
  names, which is what \<^verbatim>\<open>obj[par_name] = val, err\<close>, \<^verbatim>\<open>name not in sig_par\<close> and
  \<^verbatim>\<open>val, _ = sig_par[name]\<close> use; the lookup \<^verbatim>\<open>sig_par[name]\<close> is the application
  of the map.
\<close>

type_synonym Parameter = "string \<rightharpoonup> real \<times> real"

definition Parameter_new :: Parameter where
  "Parameter_new = Map.empty"

definition Parameter_setitem :: "Parameter \<Rightarrow> string \<Rightarrow> real \<times> real \<Rightarrow> Parameter" where
  "Parameter_setitem obj k v = obj(k \<mapsto> v)"

definition Parameter_contains :: "Parameter \<Rightarrow> string \<Rightarrow> bool" where
  "Parameter_contains obj k = (obj k \<noteq> None)"

subsection \<open>Strings\<close>

text \<open>Python's \<^verbatim>\<open>str.endswith\<close>.\<close>

definition endswith :: "string \<Rightarrow> string \<Rightarrow> bool" where
  "endswith s suf = (length suf \<le> length s \<and> drop (length s - length suf) s = suf)"

subsection \<open>The trace of effects\<close>

datatype level = DEBUG | INFO | WARNING

text \<open>One constructor per logging call of the two modules, with the values it formats.\<close>

datatype logmsg =
    Weights_found string
  | Weights_not_found string
  | Fitting_component string
  | No_plotting_configuration
  | Saving_fit_plot string
  | Dashes
  | Fixing_tails
  | Skipping_non_signal string
  | Not_fixing string
  | Fixed_to string real
  | Parameters_found string string

datatype pyval = PyStr string | PyInt int | PyBool bool

datatype event =
    Log level logmsg
  | GetColumnNames
  | Define string string
  | AsNumpy "string list"
  | PrintPdf
  | Minimize
  | PrintResult
  | Hesse string
  | Freeze
  | MakeDirs string
  | Plot "(string \<times> pyval) list"
  | SaveFig string
  | IsFile string
  | ToJson string
  | FromJson string

text \<open>
  The environment: the persisted parameter records, a store from paths to parameter
  sets, and the trace. \<^verbatim>\<open>os.path.isfile\<close> asks whether the store holds the path.
\<close>

record env =
  files :: "string \<rightharpoonup> Parameter"
  trace :: "event list"

fun is_log :: "event \<Rightarrow> bool" where
  "is_log (Log _ _) = True"
| "is_log _ = False"

definition emit :: "event list \<Rightarrow> env \<Rightarrow> env" where
  "emit evs w = w\<lparr>trace := trace w @ evs\<rparr>"

definition isfile :: "string \<Rightarrow> env \<Rightarrow> bool \<times> env" where
  "isfile path w = (path \<in> dom (files w), emit [IsFile path] w)"

text \<open>
  Modelled from the spec: \<^verbatim>\<open>Parameter.to_json\<close> and \<^verbatim>\<open>Parameter.from_json\<close> are
  not among the source files. The spec asks that the parameter set is persisted to the
  record path, and that a record written and read back reproduces the exact parameter
  set: writing stores the parameter set at the path, reading returns what the store
  holds there.
\<close>

definition to_json :: "Parameter \<Rightarrow> string \<Rightarrow> env \<Rightarrow> env" where
  "to_json par path w = emit [ToJson path] (w\<lparr>files := (files w)(path \<mapsto> par)\<rparr>)"

definition from_json :: "string \<Rightarrow> env \<Rightarrow> (error + Parameter) \<times> env" where
  "from_json path w =
     (case files w path of
        None \<Rightarrow> (Inl (RuntimeError path), emit [FromJson path] w)
      | Some par \<Rightarrow> (Inr par, emit [FromJson path] w))"

section \<open>Tail fixing\<close>

text \<open>
  The body of the loop of \<^verbatim>\<open>MCFitter._fix_tails\<close> for one parameter: the parameter
  as the body leaves it, or the exception of \<^verbatim>\<open>set_value\<close>, and what the body logs.
  The lookup \<^verbatim>\<open>sig_par[name]\<close> comes after the membership test, so its \<open>None\<close>
  branch is never taken. When \<^verbatim>\<open>set_value\<close> raises, neither the assignment to
  \<^verbatim>\<open>par.floating\<close> nor the log line is reached.
\<close>

definition MCFitter_fix_par :: "Parameter \<Rightarrow> zpar \<Rightarrow> (error + zpar) \<times> event list" where
  "MCFitter_fix_par sig_par par =
     (let name = par_name par in
      if \<not> Parameter_contains sig_par name
      then (Inr par, [Log DEBUG (Skipping_non_signal name)])
      else if endswith name ''_flt'' then (Inr par, [Log DEBUG (Not_fixing name)])
      else (case sig_par name of
              None \<Rightarrow> (Inr par, [])
            | Some (val, _) \<Rightarrow>
                (case set_value val par of
                   Inl e \<Rightarrow> (Inl e, [])
                 | Inr par1 \<Rightarrow>
                     (Inr (par1\<lparr>par_floating := False\<rparr>), [Log INFO (Fixed_to name val)]))))"

text \<open>The same for \<^verbatim>\<open>FitComponent._fix_tails\<close>, which assigns \<^verbatim>\<open>par.floating = True\<close>.\<close>

definition FitComponent_fix_par :: "Parameter \<Rightarrow> zpar \<Rightarrow> (error + zpar) \<times> event list" where
  "FitComponent_fix_par sig_par par =
     (let name = par_name par in
      if \<not> Parameter_contains sig_par name
      then (Inr par, [Log DEBUG (Skipping_non_signal name)])
      else if endswith name ''_flt'' then (Inr par, [Log DEBUG (Not_fixing name)])
      else (case sig_par name of
              None \<Rightarrow> (Inr par, [])
            | Some (val, _) \<Rightarrow>
                (case set_value val par of
                   Inl e \<Rightarrow> (Inl e, [])
                 | Inr par1 \<Rightarrow>
                     (Inr (par1\<lparr>par_floating := True\<rparr>), [Log INFO (Fixed_to name val)]))))"

text \<open>
  \<^verbatim>\<open>for par in s_par\<close>, on the parameters of the model: each listed parameter in
  turn is read from the model and written back as the body leaves it; the loop ends
  at the first exception, with the parameters visited so far changed. The positions
  that \<open>get_params\<close> lists are within the list.
\<close>

fun for_par ::
  "(zpar \<Rightarrow> (error + zpar) \<times> event list) \<Rightarrow> nat list \<Rightarrow> zpar list \<Rightarrow>
     (error + unit) \<times> zpar list \<times> event list" where
  "for_par body [] ps = (Inr (), ps, [])"
| "for_par body (i # s_par) ps =
     (case body (ps ! i) of
        (Inl e, evs) \<Rightarrow> (Inl e, ps, evs)
      | (Inr par', evs) \<Rightarrow>
          (let (r, ps', evs') = for_par body s_par (ps[i := par'])
           in (r, ps', evs @ evs')))"

text \<open>
  The same loop by recursion on the parameters of the model, skipping the fixed ones:
  \<open>for_par_get_params\<close> below shows that it is what \<open>for_par\<close> computes on the
  positions that \<open>get_params\<close> lists.
\<close>

fun visit ::
  "(zpar \<Rightarrow> (error + zpar) \<times> event list) \<Rightarrow> zpar list \<Rightarrow>
     (error + unit) \<times> zpar list \<times> event list" where
  "visit body [] = (Inr (), [], [])"
| "visit body (par # ps) =
     (if par_floating par
      then (case body par of
              (Inl e, evs) \<Rightarrow> (Inl e, par # ps, evs)
            | (Inr par', evs) \<Rightarrow>
                (let (r, ps', evs') = visit body ps
                 in (r, par' # ps', evs @ evs')))
      else (let (r, ps', evs') = visit body ps
            in (r, par # ps', evs')))"

section \<open>The tabular source and the weighted dataset\<close>

text \<open>
  A ROOT dataframe, as far as the code touches it: \<^verbatim>\<open>GetColumnNames\<close>,
  \<^verbatim>\<open>Define\<close> with the constant expressions \<^verbatim>\<open>'1.0'\<close> and \<^verbatim>\<open>'1'\<close>, and
  \<^verbatim>\<open>AsNumpy\<close>. \<^verbatim>\<open>Define\<close> returns a new dataframe node and leaves the one it is
  called on as it was.
\<close>

record rdf =
  nentries :: nat
  columns :: "(string \<times> real list) list"

definition rdf_GetColumnNames :: "rdf \<Rightarrow> string list" where
  "rdf_GetColumnNames df = map fst (columns df)"

definition rdf_Define_one :: "string \<Rightarrow> rdf \<Rightarrow> rdf" where
  "rdf_Define_one col df = df\<lparr>columns := columns df @ [(col, replicate (nentries df) 1)]\<rparr>"

fun rdf_AsNumpy :: "string list \<Rightarrow> rdf \<Rightarrow> error + (string \<times> real list) list" where
  "rdf_AsNumpy [] df = Inr []"
| "rdf_AsNumpy (col # cols) df =
     (case map_of (columns df) col of
        None \<Rightarrow> Inl (RuntimeError col)
      | Some arr \<Rightarrow>
          (case rdf_AsNumpy cols df of
             Inl e \<Rightarrow> Inl e
           | Inr d \<Rightarrow> Inr ((col, arr) # d)))"

text \<open>Every column of a dataframe holds one value per entry.\<close>

definition rdf_wf :: "rdf \<Rightarrow> bool" where
  "rdf_wf df = list_all (\<lambda>c. length (snd c) = nentries df) (columns df)"

record zdata =
  zd_obs :: "real list"
  zd_weights :: "real list"

text \<open>
  \<^verbatim>\<open>zfit.Data.from_numpy(obs, array=..., weights=...)\<close> keeps the events whose value
  lies within the limits of the observable space, each with its weight, and drops the
  others; it needs one weight per event.
\<close>

definition from_numpy :: "(real \<Rightarrow> bool) \<Rightarrow> real list \<Rightarrow> real list \<Rightarrow> error + zdata" where
  "from_numpy obs array weights =
     (if length weights \<noteq> length array then Inl (ValueError ''weights'')
      else (let kept = filter (\<lambda>xw. obs (fst xw)) (zip array weights)
            in Inr \<lparr>zd_obs = map fst kept, zd_weights = map snd kept\<rparr>))"

type_synonym FitResult = "(string \<times> real \<times> real) list"

text \<open>
  The minimizer is a collaborator (\<^verbatim>\<open>AnealingMinimizer\<close> or \<^verbatim>\<open>zfit.minimize.Minuit\<close>):
  it is a field of the object, a function from the PDF and the data to the PDF with its
  parameters moved and the result. A result lists, for each parameter name, the value
  and the error that \<^verbatim>\<open>res.hesse\<close> attaches to it.
\<close>

type_synonym minimizer = "pdf \<Rightarrow> zdata \<Rightarrow> pdf \<times> FitResult"

section \<open>MCFitter\<close>

text \<open>
  The configuration dictionary: each key is there or not. The \<^verbatim>\<open>fitting\<close> section is
  a dictionary of strings, the \<^verbatim>\<open>plotting\<close> section a dictionary of options.
\<close>

record cfg =
  cfg_name :: "string option"
  cfg_fitting :: "(string \<rightharpoonup> string) option"
  cfg_plotting :: "(string \<times> pyval) list option"
  cfg_out_dir :: "string option"

record MCFitter =
  mc_name :: string
  mc_fit_cfg :: "(string \<rightharpoonup> string) option"
  mc_plt_cfg :: "(string \<times> pyval) list option"
  mc_out_dir :: "string option"
  mc_rdf :: "rdf option"
  mc_pdf :: pdf
  mc_obs :: "real \<Rightarrow> bool"
  mc_obs_name :: string
  mc_minimizer :: minimizer

text \<open>
  \<^verbatim>\<open>__init__\<close>. \<^verbatim>\<open>cfg['name']\<close> and \<^verbatim>\<open>cfg['out_dir']\<close> raise \<^verbatim>\<open>KeyError\<close> on a
  missing key; \<^verbatim>\<open>self._out_dir\<close> stays unset without a fitting section;
  \<^verbatim>\<open>self._obs = self._pdf.space\<close> keeps the observable space;
  \<^verbatim>\<open>self._obs_name, = self._pdf.obs\<close> raises \<^verbatim>\<open>ValueError\<close> unless there is exactly
  one observable. The minimizer the constructor builds is passed in.
\<close>

definition MCFitter_init :: "minimizer \<Rightarrow> cfg \<Rightarrow> rdf option \<Rightarrow> pdf \<Rightarrow> error + MCFitter" where
  "MCFitter_init mini c df p =
     (case cfg_name c of
        None \<Rightarrow> Inl (KeyError ''name'')
      | Some name \<Rightarrow>
          (let fit_cfg = cfg_fitting c;
               plt_cfg = cfg_plotting c
           in case (if fit_cfg \<noteq> None
                    then (case cfg_out_dir c of
                            None \<Rightarrow> Inl (KeyError ''out_dir'')
                          | Some d \<Rightarrow> Inr (Some d))
                    else Inr None) of
                Inl e \<Rightarrow> Inl e
              | Inr out_dir \<Rightarrow>
                  (case pdf_obs p of
                     [obs_name] \<Rightarrow>
                       Inr \<lparr>mc_name = name, mc_fit_cfg = fit_cfg, mc_plt_cfg = plt_cfg,
                            mc_out_dir = out_dir, mc_rdf = df, mc_pdf = p,
                            mc_obs = pdf_space p, mc_obs_name = obs_name,
                            mc_minimizer = mini\<rparr>
                   | _ \<Rightarrow> Inl (ValueError ''unpack''))))"

definition MCFitter_add_weights :: "rdf \<Rightarrow> string \<Rightarrow> env \<Rightarrow> rdf \<times> env" where
  "MCFitter_add_weights df wgt_name w =
     (let l_col = rdf_GetColumnNames df;
          w1 = emit [GetColumnNames] w
      in if wgt_name \<in> set l_col
         then (df, emit [Log DEBUG (Weights_found wgt_name)] w1)
         else (rdf_Define_one wgt_name df,
               emit [Log DEBUG (Weights_not_found wgt_name), Define wgt_name ''1.0''] w1))"

text \<open>The loop of \<^verbatim>\<open>_res_to_par\<close>: \<^verbatim>\<open>obj[par_name] = val, err\<close> for each item.\<close>

fun res_items :: "FitResult \<Rightarrow> Parameter \<Rightarrow> Parameter" where
  "res_items [] obj = obj"
| "res_items ((name, val, err) # rest) obj =
     res_items rest (Parameter_setitem obj name (val, err))"

definition MCFitter_res_to_par :: "MCFitter \<Rightarrow> FitResult \<Rightarrow> env \<Rightarrow> (error + Parameter) \<times> env" where
  "MCFitter_res_to_par self res w =
     (case mc_fit_cfg self of
        None \<Rightarrow> (Inl (ValueError ''Cannot find fit configuration''), w)
      | Some fit_cfg \<Rightarrow>
          (case fit_cfg ''error_method'' of
             None \<Rightarrow> (Inl (KeyError ''error_method''), w)
           | Some err_method \<Rightarrow>
               if err_method \<noteq> ''minuit_hesse''
               then (Inl (NotImplementedError
                            (''Method '' @ err_method @ '' not implemented, only minuit_hesse allowed'')), w)
               else (Inr (res_items res Parameter_new), emit [Hesse err_method, Freeze] w)))"

definition MCFitter_fit :: "MCFitter \<Rightarrow> zdata \<Rightarrow> env \<Rightarrow> (error + Parameter) \<times> MCFitter \<times> env" where
  "MCFitter_fit self zdt w =
     (let w1 = emit [Log INFO (Fitting_component (mc_name self)), PrintPdf] w;
          (p, res) = mc_minimizer self (mc_pdf self) zdt;
          self1 = self\<lparr>mc_pdf := p\<rparr>;
          w2 = emit [Minimize, PrintResult] w1;
          (par, w3) = MCFitter_res_to_par self1 res w2
      in (par, self1, w3))"

definition MCFitter_get_data :: "MCFitter \<Rightarrow> env \<Rightarrow> (error + zdata) \<times> env" where
  "MCFitter_get_data self w =
     (case mc_fit_cfg self of
        None \<Rightarrow> (Inl (ValueError ''Cannot find fit configuration''), w)
      | Some fit_cfg \<Rightarrow>
          (case fit_cfg ''weights_column'' of
             None \<Rightarrow> (Inl (KeyError ''weights_column''), w)
           | Some weights_column \<Rightarrow>
               (case mc_rdf self of
                  None \<Rightarrow> (Inl (AttributeError ''GetColumnNames''), w)
                | Some df0 \<Rightarrow>
                    (let (df, w1) = MCFitter_add_weights df0 weights_column w;
                         w2 = emit [AsNumpy [mc_obs_name self, weights_column]] w1
                     in case rdf_AsNumpy [mc_obs_name self, weights_column] df of
                          Inl e \<Rightarrow> (Inl e, w2)
                        | Inr d_data \<Rightarrow>
                            (case (map_of d_data (mc_obs_name self), map_of d_data weights_column) of
                               (Some arr_obs, Some arr_wgt) \<Rightarrow>
                                 (from_numpy (mc_obs self) arr_obs arr_wgt, w2)
                             | _ \<Rightarrow> (Inl (KeyError weights_column), w2))))))"

definition MCFitter_plot_fit :: "MCFitter \<Rightarrow> zdata \<Rightarrow> pdf \<Rightarrow> env \<Rightarrow> (error + unit) \<times> env" where
  "MCFitter_plot_fit self data model w =
     (case mc_plt_cfg self of
        None \<Rightarrow> (Inr (), emit [Log WARNING No_plotting_configuration] w)
      | Some plt_cfg \<Rightarrow>
          (case mc_out_dir self of
             None \<Rightarrow> (Inl (AttributeError ''_out_dir''), w)
           | Some out_dir \<Rightarrow>
               (let plot_path = out_dir @ ''/'' @ mc_name self @ ''.png''
                in (Inr (), emit [MakeDirs out_dir, Plot plt_cfg,
                                  Log INFO (Saving_fit_plot plot_path), SaveFig plot_path] w))))"

definition MCFitter_fix_tails ::
  "MCFitter \<Rightarrow> Parameter \<Rightarrow> env \<Rightarrow> (error + unit) \<times> MCFitter \<times> env" where
  "MCFitter_fix_tails self sig_par w =
     (let s_par = get_params (mc_pdf self);
          w1 = emit [Log INFO Dashes, Log INFO Fixing_tails, Log INFO Dashes] w;
          (r, ps', evs) = for_par (MCFitter_fix_par sig_par) s_par (pdf_params (mc_pdf self))
      in (r, self\<lparr>mc_pdf := (mc_pdf self)\<lparr>pdf_params := ps'\<rparr>\<rparr>, emit evs w1))"

text \<open>
  \<^verbatim>\<open>run\<close> returns the PDF without a fitting section and the parameter set otherwise.
\<close>

datatype run_result = Ret_pdf pdf | Ret_par Parameter

definition MCFitter_run :: "MCFitter \<Rightarrow> env \<Rightarrow> (error + run_result) \<times> MCFitter \<times> env" where
  "MCFitter_run self w =
     (if mc_fit_cfg self = None then (Inr (Ret_pdf (mc_pdf self)), self, w)
      else if mc_rdf self = None then (Inl (ValueError ''Dataframe not found''), self, w)
      else (case mc_out_dir self of
              None \<Rightarrow> (Inl (AttributeError ''_out_dir''), self, w)
            | Some out_dir \<Rightarrow>
                (let pars_path = out_dir @ ''/'' @ mc_name self @ ''.json'';
                     (found, w1) = isfile pars_path w
                 in if \<not> found
                    then (case MCFitter_get_data self w1 of
                            (Inl e, w2) \<Rightarrow> (Inl e, self, w2)
                          | (Inr data, w2) \<Rightarrow>
                              (case MCFitter_fit self data w2 of
                                 (Inl e, self1, w3) \<Rightarrow> (Inl e, self1, w3)
                               | (Inr par, self1, w3) \<Rightarrow>
                                   (case MCFitter_plot_fit self1 data (mc_pdf self1) w3 of
                                      (Inl e, w4) \<Rightarrow> (Inl e, self1, w4)
                                    | (Inr _, w4) \<Rightarrow>
                                        (let w5 = to_json par pars_path w4
                                         in case MCFitter_fix_tails self1 par w5 of
                                              (Inl e, self2, w6) \<Rightarrow> (Inl e, self2, w6)
                                            | (Inr _, self2, w6) \<Rightarrow>
                                                (Inr (Ret_par par), self2, w6)))))
                    else (let w2 = emit [Log WARNING (Parameters_found (mc_name self) pars_path)] w1
                          in case from_json pars_path w2 of
                               (Inl e, w3) \<Rightarrow> (Inl e, self, w3)
                             | (Inr par, w3) \<Rightarrow>
                                 (case MCFitter_fix_tails self par w3 of
                                    (Inl e, self2, w4) \<Rightarrow> (Inl e, self2, w4)
                                  | (Inr _, self2, w4) \<Rightarrow> (Inr (Ret_par par), self2, w4))))))"

section \<open>FitComponent\<close>

record FitComponent =
  fc_name :: string
  fc_fit_cfg :: "(string \<rightharpoonup> string) option"
  fc_plt_cfg :: "(string \<times> pyval) list option"
  fc_rdf :: "rdf option"
  fc_pdf :: pdf
  fc_obs :: "real \<Rightarrow> bool"
  fc_obs_name :: string
  fc_minimizer :: minimizer

definition FitComponent_init :: "minimizer \<Rightarrow> cfg \<Rightarrow> rdf option \<Rightarrow> pdf \<Rightarrow> error + FitComponent" where
  "FitComponent_init mini c df p =
     (case cfg_name c of
        None \<Rightarrow> Inl (KeyError ''name'')
      | Some name \<Rightarrow>
          (case pdf_obs p of
             [obs_name] \<Rightarrow>
               Inr \<lparr>fc_name = name, fc_fit_cfg = cfg_fitting c, fc_plt_cfg = cfg_plotting c,
                    fc_rdf = df, fc_pdf = p, fc_obs = pdf_space p, fc_obs_name = obs_name,
                    fc_minimizer = mini\<rparr>
           | _ \<Rightarrow> Inl (ValueError ''unpack'')))"

definition FitComponent_add_weights :: "rdf \<Rightarrow> string \<Rightarrow> env \<Rightarrow> rdf \<times> env" where
  "FitComponent_add_weights df wgt_name w =
     (let l_col = rdf_GetColumnNames df;
          w1 = emit [GetColumnNames] w
      in if wgt_name \<in> set l_col
         then (df, emit [Log DEBUG (Weights_found wgt_name)] w1)
         else (rdf_Define_one wgt_name df,
               emit [Log DEBUG (Weights_not_found wgt_name), Define wgt_name ''1''] w1))"

definition FitComponent_res_to_par ::
  "FitComponent \<Rightarrow> FitResult \<Rightarrow> env \<Rightarrow> (error + Parameter) \<times> env" where
  "FitComponent_res_to_par self res w =
     (case fc_fit_cfg self of
        None \<Rightarrow> (Inl (ValueError ''Cannot find fit configuration''), w)
      | Some fit_cfg \<Rightarrow>
          (case fit_cfg ''error_method'' of
             None \<Rightarrow> (Inl (KeyError ''error_method''), w)
           | Some err_method \<Rightarrow>
               if err_method \<noteq> ''minuit_hesse''
               then (Inl (NotImplementedError
                            (''Method '' @ err_method @ '' not implemented, only minuit_hesse allowed'')), w)
               else (Inr (res_items res Parameter_new), emit [Hesse err_method, Freeze] w)))"

definition FitComponent_fit ::
  "FitComponent \<Rightarrow> zdata \<Rightarrow> env \<Rightarrow> (error + Parameter) \<times> FitComponent \<times> env" where
  "FitComponent_fit self zdt w =
     (let w1 = emit [Log INFO (Fitting_component (fc_name self)), PrintPdf] w;
          (p, res) = fc_minimizer self (fc_pdf self) zdt;
          self1 = self\<lparr>fc_pdf := p\<rparr>;
          w2 = emit [Minimize, PrintResult] w1;
          (par, w3) = FitComponent_res_to_par self1 res w2
      in (par, self1, w3))"

definition FitComponent_get_data :: "FitComponent \<Rightarrow> env \<Rightarrow> (error + zdata) \<times> env" where
  "FitComponent_get_data self w =
     (case fc_fit_cfg self of
        None \<Rightarrow> (Inl (ValueError ''Cannot find fit configuration''), w)
      | Some fit_cfg \<Rightarrow>
          (case fit_cfg ''weights_column'' of
             None \<Rightarrow> (Inl (KeyError ''weights_column''), w)
           | Some weights_column \<Rightarrow>
               (case fc_rdf self of
                  None \<Rightarrow> (Inl (AttributeError ''GetColumnNames''), w)
                | Some df0 \<Rightarrow>
                    (let (df, w1) = FitComponent_add_weights df0 weights_column w;
                         w2 = emit [AsNumpy [fc_obs_name self, weights_column]] w1
                     in case rdf_AsNumpy [fc_obs_name self, weights_column] df of
                          Inl e \<Rightarrow> (Inl e, w2)
                        | Inr d_data \<Rightarrow>
                            (case (map_of d_data (fc_obs_name self), map_of d_data weights_column) of
                               (Some arr_obs, Some arr_wgt) \<Rightarrow>
                                 (from_numpy (fc_obs self) arr_obs arr_wgt, w2)
                             | _ \<Rightarrow> (Inl (KeyError weights_column), w2))))))"

text \<open>
  \<^verbatim>\<open>_plot_fit\<close> takes \<^verbatim>\<open>plot_dir\<close> out of the plotting options, deleting the key from
  the dictionary the object holds, before it forwards the rest to the plotter.
\<close>

definition FitComponent_plot_fit ::
  "FitComponent \<Rightarrow> zdata \<Rightarrow> pdf \<Rightarrow> env \<Rightarrow> (error + unit) \<times> FitComponent \<times> env" where
  "FitComponent_plot_fit self data model w =
     (case fc_plt_cfg self of
        None \<Rightarrow> (Inr (), self, emit [Log WARNING No_plotting_configuration] w)
      | Some plt_cfg \<Rightarrow>
          (case map_of plt_cfg ''plot_dir'' of
             None \<Rightarrow> (Inl (KeyError ''plot_dir''), self, w)
           | Some v \<Rightarrow>
               (let plt_cfg' = filter (\<lambda>kv. fst kv \<noteq> ''plot_dir'') plt_cfg;
                    self1 = self\<lparr>fc_plt_cfg := Some plt_cfg'\<rparr>
                in case v of
                     PyStr plot_dir \<Rightarrow>
                       (let plot_path = plot_dir @ ''/'' @ fc_name self @ ''.png''
                        in (Inr (), self1,
                            emit [MakeDirs plot_dir, Plot plt_cfg',
                                  Log INFO (Saving_fit_plot plot_path), SaveFig plot_path] w))
                   | _ \<Rightarrow> (Inl (TypeError ''makedirs''), self1, w))))"

definition FitComponent_fix_tails ::
  "FitComponent \<Rightarrow> Parameter \<Rightarrow> env \<Rightarrow> (error + unit) \<times> FitComponent \<times> env" where
  "FitComponent_fix_tails self sig_par w =
     (let s_par = get_params (fc_pdf self);
          w1 = emit [Log INFO Dashes, Log INFO Fixing_tails, Log INFO Dashes] w;
          (r, ps', evs) = for_par (FitComponent_fix_par sig_par) s_par (pdf_params (fc_pdf self))
      in (r, self\<lparr>fc_pdf := (fc_pdf self)\<lparr>pdf_params := ps'\<rparr>\<rparr>, emit evs w1))"

definition FitComponent_get_pdf :: "FitComponent \<Rightarrow> env \<Rightarrow> (error + pdf) \<times> FitComponent \<times> env" where
  "FitComponent_get_pdf self w =
     (if fc_fit_cfg self = None then (Inr (fc_pdf self), self, w)
      else if fc_rdf self = None then (Inl (ValueError ''Dataframe not found''), self, w)
      else (case FitComponent_get_data self w of
              (Inl e, w1) \<Rightarrow> (Inl e, self, w1)
            | (Inr data, w1) \<Rightarrow>
                (case FitComponent_fit self data w1 of
                   (Inl e, self1, w2) \<Rightarrow> (Inl e, self1, w2)
                 | (Inr par, self1, w2) \<Rightarrow>
                     (case FitComponent_fix_tails self1 par w2 of
                        (Inl e, self2, w3) \<Rightarrow> (Inl e, self2, w3)
                      | (Inr _, self2, w3) \<Rightarrow>
                          (case FitComponent_plot_fit self2 data (fc_pdf self2) w3 of
                             (Inl e, self3, w4) \<Rightarrow> (Inl e, self3, w4)
                           | (Inr _, self3, w4) \<Rightarrow> (Inr (fc_pdf self3), self3, w4))))))"

section \<open>A worked configuration\<close>

text \<open>
  The signal component of the repository's tests: a Gaussian in \<^verbatim>\<open>mass\<close> between 5200
  and 5400 with the parameters \<^verbatim>\<open>mu_flt\<close> (limits 5200 and 5400) and \<^verbatim>\<open>sg\<close> (limits
  10 and 100), the configuration of the class docstring, a dataframe with the
  \<^verbatim>\<open>mass\<close> column only, and a minimizer that moves both parameters.
\<close>

definition ex_space :: "real \<Rightarrow> bool" where
  "ex_space x = (5200 \<le> x \<and> x \<le> 5400)"

definition ex_mu :: zpar where
  "ex_mu = \<lparr>par_name = ''mu_flt'', par_value = 5300, par_floating = True,
            par_accepts = (\<lambda>v. 5200 \<le> v \<and> v \<le> 5400)\<rparr>"

definition ex_sg :: zpar where
  "ex_sg = \<lparr>par_name = ''sg'', par_value = 10, par_floating = True,
            par_accepts = (\<lambda>v. 10 \<le> v \<and> v \<le> 100)\<rparr>"

definition ex_pdf :: pdf where
  "ex_pdf = \<lparr>pdf_obs = [''mass''], pdf_space = ex_space, pdf_params = [ex_mu, ex_sg]\<rparr>"

text \<open>The same model with \<^verbatim>\<open>sg\<close> fixed before the component sees it.\<close>

definition ex_pdf_fixed :: pdf where
  "ex_pdf_fixed = \<lparr>pdf_obs = [''mass''], pdf_space = ex_space,
                   pdf_params = [ex_mu, ex_sg\<lparr>par_floating := False\<rparr>]\<rparr>"

definition ex_fitted_pdf :: pdf where
  "ex_fitted_pdf = \<lparr>pdf_obs = [''mass''], pdf_space = ex_space,
                    pdf_params = [ex_mu\<lparr>par_value := 5301\<rparr>, ex_sg\<lparr>par_value := 12\<rparr>]\<rparr>"

definition ex_minimizer :: minimizer where
  "ex_minimizer p zdt = (ex_fitted_pdf, [(''mu_flt'', 5301, 2), (''sg'', 12, 1)])"

definition ex_par :: Parameter where
  "ex_par = [''mu_flt'' \<mapsto> (5301, 2), ''sg'' \<mapsto> (12, 1)]"

definition ex_rdf :: rdf where
  "ex_rdf = \<lparr>nentries = 3, columns = [(''mass'', [5290, 5300, 5310])]\<rparr>"

definition ex_rdf_weighted :: rdf where
  "ex_rdf_weighted = \<lparr>nentries = 3, columns = [(''mass'', [5290, 5300, 6100]),
                                                  (''weights'', [2, 1, 3])]\<rparr>"

definition ex_fitting :: "string \<rightharpoonup> string" where
  "ex_fitting = [''error_method'' \<mapsto> ''minuit_hesse'', ''weights_column'' \<mapsto> ''weights'']"

definition ex_bootstrap :: "string \<rightharpoonup> string" where
  "ex_bootstrap = [''error_method'' \<mapsto> ''bootstrap'', ''weights_column'' \<mapsto> ''weights'']"

definition ex_plotting :: "(string \<times> pyval) list" where
  "ex_plotting = [(''nbins'', PyInt 50), (''stacked'', PyBool True)]"

definition ex_cfg :: cfg where
  "ex_cfg = \<lparr>cfg_name = Some ''signal'', cfg_fitting = Some ex_fitting,
             cfg_plotting = Some ex_plotting, cfg_out_dir = Some ''/tmp/rx''\<rparr>"

definition ex_mc :: MCFitter where
  "ex_mc = \<lparr>mc_name = ''signal'', mc_fit_cfg = Some ex_fitting, mc_plt_cfg = Some ex_plotting,
            mc_out_dir = Some ''/tmp/rx'', mc_rdf = Some ex_rdf, mc_pdf = ex_pdf,
            mc_obs = ex_space, mc_obs_name = ''mass'', mc_minimizer = ex_minimizer\<rparr>"

definition ex_fc :: FitComponent where
  "ex_fc = \<lparr>fc_name = ''signal'', fc_fit_cfg = Some ex_fitting,
            fc_plt_cfg = Some ((''plot_dir'', PyStr ''/tmp/rx'') # ex_plotting),
            fc_rdf = Some ex_rdf, fc_pdf = ex_pdf,
            fc_obs = ex_space, fc_obs_name = ''mass'', fc_minimizer = ex_minimizer\<rparr>"

definition ex_env :: env where
  "ex_env = \<lparr>files = Map.empty, trace = []\<rparr>"

text \<open>The environment of a second run: the record of the first run is there.\<close>

definition ex_env_cached :: env where
  "ex_env_cached = \<lparr>files = [''/tmp/rx/signal.json'' \<mapsto> ex_par], trace = []\<rparr>"

definition ex_zdata :: zdata where
  "ex_zdata = \<lparr>zd_obs = [5290, 5300, 5310], zd_weights = [1, 1, 1]\<rparr>"

section \<open>Auxiliary facts\<close>

lemmas ex_defs = ex_space_def ex_mu_def ex_sg_def ex_pdf_def ex_pdf_fixed_def ex_fitted_pdf_def
  ex_minimizer_def ex_par_def ex_rdf_def ex_rdf_weighted_def ex_fitting_def ex_bootstrap_def
  ex_plotting_def ex_cfg_def ex_mc_def ex_fc_def ex_env_def ex_env_cached_def ex_zdata_def

lemmas mc_defs = MCFitter_run_def isfile_def emit_def MCFitter_get_data_def MCFitter_add_weights_def
  rdf_GetColumnNames_def rdf_Define_one_def from_numpy_def MCFitter_fit_def MCFitter_res_to_par_def
  MCFitter_plot_fit_def to_json_def from_json_def MCFitter_fix_tails_def MCFitter_fix_par_def
  set_value_def endswith_def get_params_def Parameter_new_def Parameter_setitem_def
  Parameter_contains_def par_state_def Let_def


subsection \<open>The loop over the floating parameters\<close>

lemma filter_upt_Suc:
  "filter P [0..<Suc n] = (if P 0 then [0] else []) @ map Suc (filter (\<lambda>i. P (Suc i)) [0..<n])"
proof -
  have "[0..<Suc n] = 0 # map Suc [0..<n]"
    by (simp add: upt_conv_Cons map_Suc_upt del: upt_Suc)
  then show ?thesis
    by (simp add: filter_map comp_def del: upt_Suc)
qed

lemma for_par_visit:
  "for_par body (map (\<lambda>i. i + length pre) (filter (\<lambda>i. par_floating (ps ! i)) [0..<length ps]))
       (pre @ ps) =
     (case visit body ps of (r, ps', evs) \<Rightarrow> (r, pre @ ps', evs))"
proof (induction ps arbitrary: pre)
  case Nil
  then show ?case by simp
next
  case (Cons p qs)
  have refs: "map (\<lambda>i. i + length pre) (map Suc (filter (\<lambda>i. par_floating (qs ! i)) [0..<length qs])) =
      map (\<lambda>i. i + length (pre @ [x])) (filter (\<lambda>i. par_floating (qs ! i)) [0..<length qs])" for x
    by simp
  show ?case
  proof (cases "par_floating p")
    case False
    then show ?thesis
      using Cons.IH [of "pre @ [p]"]
      by (simp add: filter_upt_Suc refs comp_def split: prod.splits del: upt_Suc)
  next
    case True
    show ?thesis
    proof (cases "body p")
      case (Pair r evs)
      show ?thesis
      proof (cases r)
        case (Inl e)
        with True Pair show ?thesis
          by (simp add: filter_upt_Suc del: upt_Suc)
      next
        case (Inr p')
        with True Pair show ?thesis
          using Cons.IH [of "pre @ [p']"]
          by (simp add: filter_upt_Suc refs comp_def split: prod.splits del: upt_Suc)
      qed
    qed
  qed
qed

lemma for_par_get_params:
  "for_par body (get_params p) (pdf_params p) = visit body (pdf_params p)"
  using for_par_visit [of body "[]" "pdf_params p"]
  by (simp add: get_params_def split: prod.splits)

lemma visit_params_Cons:
  "fst (snd (visit body (p # qs))) =
     (if par_floating p
      then (case fst (body p) of
              Inl e \<Rightarrow> p # qs
            | Inr p' \<Rightarrow> p' # fst (snd (visit body qs)))
      else p # fst (snd (visit body qs)))"
  by (simp split: prod.splits sum.splits)

lemma visit_result_Cons:
  "fst (visit body (p # qs)) =
     (if par_floating p
      then (case fst (body p) of
              Inl e \<Rightarrow> Inl e
            | Inr p' \<Rightarrow> fst (visit body qs))
      else fst (visit body qs))"
  by (simp split: prod.splits sum.splits)

lemma visit_events_Cons:
  "snd (snd (visit body (p # qs))) =
     (if par_floating p
      then (case fst (body p) of
              Inl e \<Rightarrow> snd (body p)
            | Inr p' \<Rightarrow> snd (body p) @ snd (snd (visit body qs)))
      else snd (snd (visit body qs)))"
  by (simp split: prod.splits sum.splits)

lemma visit_length: "length (fst (snd (visit body ps))) = length ps"
  by (induction ps) (simp_all add: visit_params_Cons split: sum.splits del: visit.simps(2))

lemma visit_rel:
  assumes step: "\<And>p p'. par_floating p \<Longrightarrow> fst (body p) = Inr p' \<Longrightarrow> R p p'"
    and refl: "\<And>p. R p p"
  shows "list_all2 R ps (fst (snd (visit body ps)))"
proof (induction ps)
  case Nil
  then show ?case by simp
next
  case (Cons p qs)
  have same: "list_all2 R qs qs"
    by (simp add: list_all2_same refl)
  with Cons show ?case
    by (simp add: visit_params_Cons refl step split: sum.splits del: visit.simps(2))
qed

lemma visit_Inr:
  assumes "fst (visit body ps) = Inr u"
  shows "list_all2 (\<lambda>p p'. (par_floating p \<longrightarrow> fst (body p) = Inr p') \<and>
                            (\<not> par_floating p \<longrightarrow> p' = p))
           ps (fst (snd (visit body ps)))"
  using assms
proof (induction ps)
  case Nil
  then show ?case by simp
next
  case (Cons p qs)
  show ?case
  proof (cases "par_floating p")
    case False
    with Cons.prems have "fst (visit body qs) = Inr u"
      by (simp add: visit_result_Cons del: visit.simps(2))
    with Cons.IH False show ?thesis
      by (simp add: visit_params_Cons del: visit.simps(2))
  next
    case True
    with Cons.prems obtain p' where p': "fst (body p) = Inr p'" and "fst (visit body qs) = Inr u"
      by (cases "fst (body p)") (simp_all add: visit_result_Cons del: visit.simps(2))
    with Cons.IH True show ?thesis
      by (simp add: visit_params_Cons del: visit.simps(2))
  qed
qed

lemma visit_idem:
  assumes stable: "\<And>p p'. par_floating p \<Longrightarrow> fst (body p) = Inr p' \<Longrightarrow>
      par_floating p' \<Longrightarrow> fst (body p') = Inr p'"
  shows "fst (snd (visit body (fst (snd (visit body ps))))) = fst (snd (visit body ps))"
proof (induction ps)
  case Nil
  then show ?case by simp
next
  case (Cons p qs)
  show ?case
  proof (cases "par_floating p")
    case False
    with Cons show ?thesis by (simp add: visit_params_Cons del: visit.simps(2))
  next
    case True
    show ?thesis
    proof (cases "fst (body p)")
      case (Inl e)
      with True show ?thesis by (simp add: visit_params_Cons del: visit.simps(2))
    next
      case (Inr p')
      show ?thesis
      proof (cases "par_floating p'")
        case False
        with True Inr Cons show ?thesis by (simp add: visit_params_Cons del: visit.simps(2))
      next
        case fl: True
        from stable [OF True Inr fl] True Inr Cons fl show ?thesis
          by (simp add: visit_params_Cons del: visit.simps(2))
      qed
    qed
  qed
qed

lemma visit_logs:
  assumes "\<And>p. list_all is_log (snd (body p))"
  shows "list_all is_log (snd (snd (visit body ps)))"
  by (induction ps) (simp_all add: visit_events_Cons assms split: sum.splits del: visit.simps(2))

subsection \<open>The loop bodies\<close>

lemma MCFitter_fix_par_flt:
  "endswith (par_name p) ''_flt'' \<Longrightarrow> fst (MCFitter_fix_par sig_par p) = Inr p"
  by (simp add: MCFitter_fix_par_def Let_def)

lemma FitComponent_fix_par_flt:
  "endswith (par_name p) ''_flt'' \<Longrightarrow> fst (FitComponent_fix_par sig_par p) = Inr p"
  by (simp add: FitComponent_fix_par_def Let_def)

lemma MCFitter_fix_par_cases:
  assumes "fst (MCFitter_fix_par sig_par p) = Inr p'"
  shows "p' = p \<or>
         (\<exists>val err. sig_par (par_name p) = Some (val, err) \<and> \<not> endswith (par_name p) ''_flt'' \<and>
            par_accepts p val \<and> p' = p\<lparr>par_value := val, par_floating := False\<rparr>)"
  using assms
  by (auto simp add: MCFitter_fix_par_def set_value_def Let_def Parameter_contains_def
        split: option.splits if_splits)

lemma FitComponent_fix_par_cases:
  assumes "fst (FitComponent_fix_par sig_par p) = Inr p'"
  shows "p' = p \<or>
         (\<exists>val err. sig_par (par_name p) = Some (val, err) \<and> \<not> endswith (par_name p) ''_flt'' \<and>
            par_accepts p val \<and> p' = p\<lparr>par_value := val, par_floating := True\<rparr>)"
  using assms
  by (auto simp add: FitComponent_fix_par_def set_value_def Let_def Parameter_contains_def
        split: option.splits if_splits)

lemma MCFitter_fix_par_matched:
  assumes "fst (MCFitter_fix_par sig_par p) = Inr p'"
    and "sig_par (par_name p) = Some (val, err)" and "\<not> endswith (par_name p) ''_flt''"
  shows "p' = p\<lparr>par_value := val, par_floating := False\<rparr>"
  using assms
  by (auto simp add: MCFitter_fix_par_def set_value_def Let_def Parameter_contains_def
        split: if_splits)


lemma MCFitter_fix_par_stable:
  assumes "fst (MCFitter_fix_par sig_par p) = Inr p'" and "par_floating p'"
  shows "fst (MCFitter_fix_par sig_par p') = Inr p'"
  using MCFitter_fix_par_cases [OF assms(1)] assms by auto

lemma FitComponent_fix_par_stable:
  assumes "fst (FitComponent_fix_par sig_par p) = Inr p'"
  shows "fst (FitComponent_fix_par sig_par p') = Inr p'"
  using FitComponent_fix_par_cases [OF assms] assms
  by (auto simp add: FitComponent_fix_par_def set_value_def Let_def Parameter_contains_def)

lemma MCFitter_fix_par_log: "list_all is_log (snd (MCFitter_fix_par sig_par p))"
  by (simp add: MCFitter_fix_par_def Let_def split: option.splits sum.splits)

lemma FitComponent_fix_par_log: "list_all is_log (snd (FitComponent_fix_par sig_par p))"
  by (simp add: FitComponent_fix_par_def Let_def split: option.splits sum.splits)

subsection \<open>Tail fixing on the objects\<close>

lemma files_emit: "files (emit evs w) = files w" and trace_emit: "trace (emit evs w) = trace w @ evs"
  by (simp_all add: emit_def)

lemma MCFitter_fix_tails_eq:
  "MCFitter_fix_tails self sig_par w =
     (fst (visit (MCFitter_fix_par sig_par) (pdf_params (mc_pdf self))),
      self\<lparr>mc_pdf := (mc_pdf self)\<lparr>pdf_params :=
              fst (snd (visit (MCFitter_fix_par sig_par) (pdf_params (mc_pdf self))))\<rparr>\<rparr>,
      emit ([Log INFO Dashes, Log INFO Fixing_tails, Log INFO Dashes] @
            snd (snd (visit (MCFitter_fix_par sig_par) (pdf_params (mc_pdf self))))) w)"
  by (simp add: MCFitter_fix_tails_def for_par_get_params emit_def Let_def split: prod.splits)

lemma FitComponent_fix_tails_eq:
  "FitComponent_fix_tails self sig_par w =
     (fst (visit (FitComponent_fix_par sig_par) (pdf_params (fc_pdf self))),
      self\<lparr>fc_pdf := (fc_pdf self)\<lparr>pdf_params :=
              fst (snd (visit (FitComponent_fix_par sig_par) (pdf_params (fc_pdf self))))\<rparr>\<rparr>,
      emit ([Log INFO Dashes, Log INFO Fixing_tails, Log INFO Dashes] @
            snd (snd (visit (FitComponent_fix_par sig_par) (pdf_params (fc_pdf self))))) w)"
  by (simp add: FitComponent_fix_tails_def for_par_get_params emit_def Let_def split: prod.splits)

lemma MCFitter_fix_tails_files: "files (snd (snd (MCFitter_fix_tails mc par w))) = files w"
  by (simp add: MCFitter_fix_tails_eq files_emit)

lemma MCFitter_fix_tails_logs:
  "\<exists>evs. trace (snd (snd (MCFitter_fix_tails mc par w))) = trace w @ evs \<and> list_all is_log evs"
  using visit_logs [of "MCFitter_fix_par par" "pdf_params (mc_pdf mc)", OF MCFitter_fix_par_log]
  by (simp add: MCFitter_fix_tails_eq trace_emit)

text \<open>
  What a tail fixing that returns has done to the parameter at each position.
\<close>

lemma MCFitter_fix_tails_Inr:
  assumes "MCFitter_fix_tails mc par w = (Inr u, mc', w')"
    and "i < length (pdf_params (mc_pdf mc))"
  shows "par_floating (pdf_params (mc_pdf mc) ! i) \<Longrightarrow>
           par (par_name (pdf_params (mc_pdf mc) ! i)) = Some (val, err) \<Longrightarrow>
           \<not> endswith (par_name (pdf_params (mc_pdf mc) ! i)) ''_flt'' \<Longrightarrow>
           pdf_params (mc_pdf mc') ! i =
             (pdf_params (mc_pdf mc) ! i)\<lparr>par_value := val, par_floating := False\<rparr>"
    and "\<not> par_floating (pdf_params (mc_pdf mc) ! i) \<Longrightarrow>
           pdf_params (mc_pdf mc') ! i = pdf_params (mc_pdf mc) ! i"
proof -
  let ?ps = "pdf_params (mc_pdf mc)"
  from assms(1) have res: "fst (visit (MCFitter_fix_par par) ?ps) = Inr u"
    and ps': "pdf_params (mc_pdf mc') = fst (snd (visit (MCFitter_fix_par par) ?ps))"
    by (auto simp add: MCFitter_fix_tails_eq)
  from visit_Inr [OF res] assms(2)
  have at: "(par_floating (?ps ! i) \<longrightarrow>
               fst (MCFitter_fix_par par (?ps ! i)) = Inr (pdf_params (mc_pdf mc') ! i)) \<and>
            (\<not> par_floating (?ps ! i) \<longrightarrow> pdf_params (mc_pdf mc') ! i = ?ps ! i)"
    unfolding ps' by (rule list_all2_nthD)
  show "par_floating (?ps ! i) \<Longrightarrow> par (par_name (?ps ! i)) = Some (val, err) \<Longrightarrow>
          \<not> endswith (par_name (?ps ! i)) ''_flt'' \<Longrightarrow>
          pdf_params (mc_pdf mc') ! i = (?ps ! i)\<lparr>par_value := val, par_floating := False\<rparr>"
    using at MCFitter_fix_par_matched by blast
  show "\<not> par_floating (?ps ! i) \<Longrightarrow> pdf_params (mc_pdf mc') ! i = ?ps ! i"
    using at by blast
qed


lemma MCFitter_fix_tails_length:
  "length (pdf_params (mc_pdf (fst (snd (MCFitter_fix_tails mc par w))))) =
     length (pdf_params (mc_pdf mc))"
  by (simp add: MCFitter_fix_tails_eq visit_length)


subsection \<open>The dataset\<close>

lemma map_of_present: "c \<in> set (map fst cols) \<Longrightarrow> \<exists>arr. map_of cols c = Some arr"
  by (cases "map_of cols c") (simp_all add: map_of_eq_None_iff)

lemma rdf_wf_length:
  "rdf_wf df \<Longrightarrow> map_of (columns df) c = Some arr \<Longrightarrow> length arr = nentries df"
  by (auto simp add: rdf_wf_def list_all_iff dest!: map_of_SomeD)

lemma MCFitter_add_weights_eq:
  "MCFitter_add_weights df wgt w =
     (if wgt \<in> set (rdf_GetColumnNames df)
      then (df, emit [GetColumnNames, Log DEBUG (Weights_found wgt)] w)
      else (df\<lparr>columns := columns df @ [(wgt, replicate (nentries df) 1)]\<rparr>,
            emit [GetColumnNames, Log DEBUG (Weights_not_found wgt), Define wgt ''1.0''] w))"
  by (simp add: MCFitter_add_weights_def rdf_Define_one_def emit_def Let_def)

lemma FitComponent_add_weights_eq:
  "FitComponent_add_weights df wgt w =
     (if wgt \<in> set (rdf_GetColumnNames df)
      then (df, emit [GetColumnNames, Log DEBUG (Weights_found wgt)] w)
      else (df\<lparr>columns := columns df @ [(wgt, replicate (nentries df) 1)]\<rparr>,
            emit [GetColumnNames, Log DEBUG (Weights_not_found wgt), Define wgt ''1''] w))"
  by (simp add: FitComponent_add_weights_def rdf_Define_one_def emit_def Let_def)

lemma MCFitter_get_data_ok:
  assumes "mc_fit_cfg mc = Some fit_cfg" and "fit_cfg ''weights_column'' = Some wgt"
    and "mc_rdf mc = Some df" and "map_of (columns df) (mc_obs_name mc) = Some arr_obs"
  shows "fst (MCFitter_get_data mc w) =
           from_numpy (mc_obs mc) arr_obs
             (case map_of (columns df) wgt of
                Some arr_wgt \<Rightarrow> arr_wgt
              | None \<Rightarrow> replicate (nentries df) 1)"
proof (cases "wgt \<in> set (rdf_GetColumnNames df)")
  case True
  then obtain arr_wgt where "map_of (columns df) wgt = Some arr_wgt"
    using map_of_present [of wgt "columns df"] unfolding rdf_GetColumnNames_def by blast
  with True assms show ?thesis
    by (auto simp add: MCFitter_get_data_def MCFitter_add_weights_eq Let_def)
next
  case False
  then have "map_of (columns df) wgt = None"
    by (simp add: rdf_GetColumnNames_def map_of_eq_None_iff)
  moreover from this assms(4) have "mc_obs_name mc \<noteq> wgt" by auto
  ultimately show ?thesis
    using False assms
    by (simp add: MCFitter_get_data_def MCFitter_add_weights_eq Let_def map_add_def)
qed

lemma FitComponent_get_data_ok:
  assumes "fc_fit_cfg fc = Some fit_cfg" and "fit_cfg ''weights_column'' = Some wgt"
    and "fc_rdf fc = Some df" and "map_of (columns df) (fc_obs_name fc) = Some arr_obs"
  shows "fst (FitComponent_get_data fc w) =
           from_numpy (fc_obs fc) arr_obs
             (case map_of (columns df) wgt of
                Some arr_wgt \<Rightarrow> arr_wgt
              | None \<Rightarrow> replicate (nentries df) 1)"
proof (cases "wgt \<in> set (rdf_GetColumnNames df)")
  case True
  then obtain arr_wgt where "map_of (columns df) wgt = Some arr_wgt"
    using map_of_present [of wgt "columns df"] unfolding rdf_GetColumnNames_def by blast
  with True assms show ?thesis
    by (auto simp add: FitComponent_get_data_def FitComponent_add_weights_eq Let_def)
next
  case False
  then have "map_of (columns df) wgt = None"
    by (simp add: rdf_GetColumnNames_def map_of_eq_None_iff)
  moreover from this assms(4) have "fc_obs_name fc \<noteq> wgt" by auto
  ultimately show ?thesis
    using False assms
    by (simp add: FitComponent_get_data_def FitComponent_add_weights_eq Let_def map_add_def)
qed

lemma from_numpy_Inr:
  assumes "length weights = length array"
  shows "from_numpy obs array weights =
           Inr \<lparr>zd_obs = filter obs array,
                zd_weights = map snd (filter (\<lambda>xw. obs (fst xw)) (zip array weights))\<rparr>"
proof -
  have "map fst (filter (\<lambda>xw. obs (fst xw)) (zip array weights)) = filter obs array"
    using assms
    by (induction array weights rule: list_induct2') simp_all
  with assms show ?thesis by (simp add: from_numpy_def Let_def)
qed

lemma from_numpy_ones:
  "from_numpy obs array (replicate (length array) 1) =
     Inr \<lparr>zd_obs = filter obs array, zd_weights = replicate (length (filter obs array)) 1\<rparr>"
proof -
  have "map snd (filter (\<lambda>xw. obs (fst xw)) (zip array (replicate (length array) (1::real)))) =
      replicate (length (filter obs array)) 1"
    by (induction array) simp_all
  then show ?thesis by (simp add: from_numpy_Inr)
qed

subsection \<open>The fit and the entry points\<close>

lemma MCFitter_fit_Inr:
  assumes "MCFitter_fit mc zdt w = (Inr par, mc1, w1)"
  shows "mc1 = mc\<lparr>mc_pdf := fst (mc_minimizer mc (mc_pdf mc) zdt)\<rparr>"
    and "par = res_items (snd (mc_minimizer mc (mc_pdf mc) zdt)) Parameter_new"
    and "w1 = emit [Log INFO (Fitting_component (mc_name mc)), PrintPdf, Minimize, PrintResult,
                    Hesse ''minuit_hesse'', Freeze] w"
  using assms
  by (auto simp add: MCFitter_fit_def MCFitter_res_to_par_def emit_def Let_def
        split: prod.splits option.splits if_splits)

lemma FitComponent_fit_Inr:
  assumes "FitComponent_fit fc zdt w = (Inr par, fc1, w1)"
  shows "fc1 = fc\<lparr>fc_pdf := fst (fc_minimizer fc (fc_pdf fc) zdt)\<rparr>"
    and "par = res_items (snd (fc_minimizer fc (fc_pdf fc) zdt)) Parameter_new"
    and "w1 = emit [Log INFO (Fitting_component (fc_name fc)), PrintPdf, Minimize, PrintResult,
                    Hesse ''minuit_hesse'', Freeze] w"
  using assms
  by (auto simp add: FitComponent_fit_def FitComponent_res_to_par_def emit_def Let_def
        split: prod.splits option.splits if_splits)

lemma MCFitter_plot_fit_Inr:
  assumes "MCFitter_plot_fit mc zdt model w = (Inr u, w1)" and "mc_out_dir mc = Some out_dir"
  shows "w1 = emit (case mc_plt_cfg mc of
                      None \<Rightarrow> [Log WARNING No_plotting_configuration]
                    | Some plt_cfg \<Rightarrow>
                        [MakeDirs out_dir, Plot plt_cfg,
                         Log INFO (Saving_fit_plot (out_dir @ ''/'' @ mc_name mc @ ''.png'')),
                         SaveFig (out_dir @ ''/'' @ mc_name mc @ ''.png'')]) w"
  using assms by (auto simp add: MCFitter_plot_fit_def Let_def split: option.splits)


lemma MCFitter_get_data_files: "files (snd (MCFitter_get_data mc w)) = files w"
  by (simp add: MCFitter_get_data_def MCFitter_add_weights_def emit_def Let_def
        split: option.splits sum.splits prod.splits)

lemma MCFitter_run_Inr:
  assumes "mc_fit_cfg mc \<noteq> None" and "mc_rdf mc \<noteq> None"
    and "MCFitter_run mc w = (Inr r, mc', w')"
  obtains
    (fresh) out_dir zdt w2 par mc1 w3 w4 where
      "mc_out_dir mc = Some out_dir"
      "out_dir @ ''/'' @ mc_name mc @ ''.json'' \<notin> dom (files w)"
      "MCFitter_get_data mc (emit [IsFile (out_dir @ ''/'' @ mc_name mc @ ''.json'')] w) = (Inr zdt, w2)"
      "MCFitter_fit mc zdt w2 = (Inr par, mc1, w3)"
      "MCFitter_plot_fit mc1 zdt (mc_pdf mc1) w3 = (Inr (), w4)"
      "r = Ret_par par"
      "MCFitter_fix_tails mc1 par (to_json par (out_dir @ ''/'' @ mc_name mc @ ''.json'') w4) =
         (Inr (), mc', w')"
  | (cached) out_dir par where
      "mc_out_dir mc = Some out_dir"
      "files w (out_dir @ ''/'' @ mc_name mc @ ''.json'') = Some par"
      "r = Ret_par par"
      "MCFitter_fix_tails mc par
         (emit [IsFile (out_dir @ ''/'' @ mc_name mc @ ''.json''),
                Log WARNING (Parameters_found (mc_name mc) (out_dir @ ''/'' @ mc_name mc @ ''.json'')),
                FromJson (out_dir @ ''/'' @ mc_name mc @ ''.json'')] w) = (Inr (), mc', w')"
proof (cases "mc_out_dir mc")
  case None
  with assms show ?thesis by (auto simp add: MCFitter_run_def)
next
  case (Some out_dir)
  let ?path = "out_dir @ ''/'' @ mc_name mc @ ''.json''"
  show ?thesis
  proof (cases "?path \<in> dom (files w)")
    case True
    then obtain par where par: "files w ?path = Some par" by auto
    from assms Some True par
    have "r = Ret_par par"
      and "MCFitter_fix_tails mc par
         (emit [IsFile ?path, Log WARNING (Parameters_found (mc_name mc) ?path), FromJson ?path] w) =
         (Inr (), mc', w')"
      by (auto simp add: MCFitter_run_def isfile_def from_json_def emit_def Let_def domIff
            split: prod.splits sum.splits)
    with Some par show ?thesis by (rule cached)
  next
    case False
    from assms Some False
    obtain zdt w2 par mc1 w3 w4 where
      "MCFitter_get_data mc (emit [IsFile ?path] w) = (Inr zdt, w2)"
      "MCFitter_fit mc zdt w2 = (Inr par, mc1, w3)"
      "MCFitter_plot_fit mc1 zdt (mc_pdf mc1) w3 = (Inr (), w4)"
      "r = Ret_par par"
      "MCFitter_fix_tails mc1 par (to_json par ?path w4) = (Inr (), mc', w')"
      by (auto simp add: MCFitter_run_def isfile_def Let_def domIff
            split: prod.splits sum.splits)
    with Some False show ?thesis by (rule fresh)
  qed
qed


section \<open>The tail-fixing policy\<close>

text \<open>
  Claim C5. A model parameter whose name ends with the reserved suffix \<^verbatim>\<open>_flt\<close> is left
  exactly as it was by the tail-fixing policy: neither its value nor its floating flag
  changes, whatever the fitted parameter set holds, whether the parameter is floating
  (and visited) or fixed (and not visited), and whether or not the policy ends with an
  exception. The source has no freeze flag; the two values of the flag are the two
  classes, \<^verbatim>\<open>MCFitter._fix_tails\<close> (which fixes) and \<^verbatim>\<open>FitComponent._fix_tails\<close>
  (which releases), and the statement covers both. The policy also keeps the number and
  the order of the parameters.
\<close>

theorem flt_suffix_exempt:
  "length (pdf_params (mc_pdf (fst (snd (MCFitter_fix_tails mc sig_par w))))) =
     length (pdf_params (mc_pdf mc)) \<and>
   (\<forall>i < length (pdf_params (mc_pdf mc)).
      endswith (par_name (pdf_params (mc_pdf mc) ! i)) ''_flt'' \<longrightarrow>
      pdf_params (mc_pdf (fst (snd (MCFitter_fix_tails mc sig_par w)))) ! i =
        pdf_params (mc_pdf mc) ! i) \<and>
   length (pdf_params (fc_pdf (fst (snd (FitComponent_fix_tails fc sig_par w))))) =
     length (pdf_params (fc_pdf fc)) \<and>
   (\<forall>i < length (pdf_params (fc_pdf fc)).
      endswith (par_name (pdf_params (fc_pdf fc) ! i)) ''_flt'' \<longrightarrow>
      pdf_params (fc_pdf (fst (snd (FitComponent_fix_tails fc sig_par w)))) ! i =
        pdf_params (fc_pdf fc) ! i)"
proof -
  have mc: "list_all2 (\<lambda>p p'. endswith (par_name p) ''_flt'' \<longrightarrow> p' = p) (pdf_params (mc_pdf mc))
      (fst (snd (visit (MCFitter_fix_par sig_par) (pdf_params (mc_pdf mc)))))"
    by (rule visit_rel) (auto simp add: MCFitter_fix_par_flt)
  have fc: "list_all2 (\<lambda>p p'. endswith (par_name p) ''_flt'' \<longrightarrow> p' = p) (pdf_params (fc_pdf fc))
      (fst (snd (visit (FitComponent_fix_par sig_par) (pdf_params (fc_pdf fc)))))"
    by (rule visit_rel) (auto simp add: FitComponent_fix_par_flt)
  show ?thesis
    using list_all2_nthD [OF mc] list_all2_nthD [OF fc]
    by (simp add: MCFitter_fix_tails_eq FitComponent_fix_tails_eq visit_length)
qed

theorem flt_suffix_exempt_witness:
  "0 < length (pdf_params (mc_pdf ex_mc)) \<and>
   endswith (par_name (pdf_params (mc_pdf ex_mc) ! 0)) ''_flt'' \<and>
   par_floating (pdf_params (mc_pdf ex_mc) ! 0) \<and>
   ex_par (par_name (pdf_params (mc_pdf ex_mc) ! 0)) = Some (5301, 2) \<and>
   pdf_params (mc_pdf (fst (snd (MCFitter_fix_tails ex_mc ex_par ex_env)))) ! 0 = ex_mu \<and>
   pdf_params (fc_pdf (fst (snd (FitComponent_fix_tails ex_fc ex_par ex_env)))) ! 0 = ex_mu \<and>
   par_state ex_mu = (''mu_flt'', 5300, True)"
  using flt_suffix_exempt [of ex_mc ex_par ex_env ex_fc]
  by (simp add: ex_defs endswith_def par_state_def)

text \<open>
  Claim C6. The tail-fixing policy is idempotent: applying \<^verbatim>\<open>_fix_tails\<close> a second time
  with the same parameter set leaves every parameter of the model, value and floating
  flag, as the first application left it. This holds for \<^verbatim>\<open>MCFitter._fix_tails\<close> and
  for \<^verbatim>\<open>FitComponent._fix_tails\<close>, also when the first application stopped at an
  exception of \<^verbatim>\<open>set_value\<close>; only the log grows.
\<close>

theorem fix_tails_idempotent:
  "mc_pdf (fst (snd (MCFitter_fix_tails (fst (snd (MCFitter_fix_tails mc sig_par w))) sig_par w'))) =
     mc_pdf (fst (snd (MCFitter_fix_tails mc sig_par w))) \<and>
   fc_pdf (fst (snd (FitComponent_fix_tails (fst (snd (FitComponent_fix_tails fc sig_par w)))
                       sig_par w'))) =
     fc_pdf (fst (snd (FitComponent_fix_tails fc sig_par w)))"
  by (simp add: MCFitter_fix_tails_eq FitComponent_fix_tails_eq
        visit_idem [of "MCFitter_fix_par sig_par", OF MCFitter_fix_par_stable]
        visit_idem [of "FitComponent_fix_par sig_par", OF FitComponent_fix_par_stable])




section \<open>The entry points without a fit\<close>

text \<open>
  Claim C8. An object built with a fitting section but with no dataframe
  (\<^verbatim>\<open>rdf is None\<close>) fails at the entry point, \<^verbatim>\<open>MCFitter.run\<close> or
  \<^verbatim>\<open>FitComponent.get_pdf\<close>, with \<^verbatim>\<open>ValueError('Dataframe not found')\<close>, the code's
  rendering of the spec's DataMissingError, and it fails before anything else happens:
  the object, the persisted records and the trace are as they were, so no data was
  extracted, nothing was fitted or plotted and no record was written.
\<close>

theorem missing_dataframe_fails_first:
  "(mc_fit_cfg mc \<noteq> None \<and> mc_rdf mc = None \<longrightarrow>
      MCFitter_run mc w = (Inl (ValueError ''Dataframe not found''), mc, w)) \<and>
   (fc_fit_cfg fc \<noteq> None \<and> fc_rdf fc = None \<longrightarrow>
      FitComponent_get_pdf fc w = (Inl (ValueError ''Dataframe not found''), fc, w))"
  by (simp add: MCFitter_run_def FitComponent_get_pdf_def)

theorem missing_dataframe_fails_first_witness:
  "mc_fit_cfg (ex_mc\<lparr>mc_rdf := None\<rparr>) \<noteq> None \<and> mc_rdf (ex_mc\<lparr>mc_rdf := None\<rparr>) = None \<and>
   MCFitter_run (ex_mc\<lparr>mc_rdf := None\<rparr>) ex_env =
     (Inl (ValueError ''Dataframe not found''), ex_mc\<lparr>mc_rdf := None\<rparr>, ex_env) \<and>
   fc_fit_cfg (ex_fc\<lparr>fc_rdf := None\<rparr>) \<noteq> None \<and> fc_rdf (ex_fc\<lparr>fc_rdf := None\<rparr>) = None \<and>
   FitComponent_get_pdf (ex_fc\<lparr>fc_rdf := None\<rparr>) ex_env =
     (Inl (ValueError ''Dataframe not found''), ex_fc\<lparr>fc_rdf := None\<rparr>, ex_env)"
  using missing_dataframe_fails_first [of "ex_mc\<lparr>mc_rdf := None\<rparr>" ex_env "ex_fc\<lparr>fc_rdf := None\<rparr>"]
  by (simp add: ex_mc_def ex_fc_def)

text \<open>
  Claim C9. An object built without a fitting section is a pass-through: the entry point
  returns the model it holds, and the object (so every parameter value and floating
  flag), the persisted records and the trace are as they were: no fit, no access to the
  data, no plot, no look at the cache.
\<close>

theorem no_fitting_is_pass_through:
  "(mc_fit_cfg mc = None \<longrightarrow> MCFitter_run mc w = (Inr (Ret_pdf (mc_pdf mc)), mc, w)) \<and>
   (fc_fit_cfg fc = None \<longrightarrow> FitComponent_get_pdf fc w = (Inr (fc_pdf fc), fc, w))"
  by (simp add: MCFitter_run_def FitComponent_get_pdf_def)

theorem no_fitting_is_pass_through_witness:
  "mc_fit_cfg (ex_mc\<lparr>mc_fit_cfg := None\<rparr>) = None \<and>
   MCFitter_run (ex_mc\<lparr>mc_fit_cfg := None\<rparr>) ex_env =
     (Inr (Ret_pdf ex_pdf), ex_mc\<lparr>mc_fit_cfg := None\<rparr>, ex_env) \<and>
   fc_fit_cfg (ex_fc\<lparr>fc_fit_cfg := None\<rparr>) = None \<and>
   FitComponent_get_pdf (ex_fc\<lparr>fc_fit_cfg := None\<rparr>) ex_env =
     (Inr ex_pdf, ex_fc\<lparr>fc_fit_cfg := None\<rparr>, ex_env)"
  using no_fitting_is_pass_through [of "ex_mc\<lparr>mc_fit_cfg := None\<rparr>" ex_env "ex_fc\<lparr>fc_fit_cfg := None\<rparr>"]
  by (simp add: ex_mc_def ex_fc_def)

section \<open>Construction\<close>

text \<open>
  Claim C10, as the spec states it: the output directory is optional, so that building an
  \<^verbatim>\<open>MCFitter\<close> from a configuration with a name and a fitting section but no
  \<^verbatim>\<open>out_dir\<close> succeeds. The constructor reads \<^verbatim>\<open>cfg['out_dir']\<close> exactly when the
  fitting section is there, and the docstring's configuration, without its \<^verbatim>\<open>out_dir\<close>,
  raises \<^verbatim>\<open>KeyError\<close>.
\<close>

theorem out_dir_optional_counterexample:
  "cfg_name (ex_cfg\<lparr>cfg_out_dir := None\<rparr>) = Some ''signal'' \<and>
   cfg_fitting (ex_cfg\<lparr>cfg_out_dir := None\<rparr>) = Some ex_fitting \<and>
   cfg_out_dir (ex_cfg\<lparr>cfg_out_dir := None\<rparr>) = None \<and>
   MCFitter_init ex_minimizer (ex_cfg\<lparr>cfg_out_dir := None\<rparr>) (Some ex_rdf) ex_pdf =
     Inl (KeyError ''out_dir'')"
  by (simp add: MCFitter_init_def ex_cfg_def)

text \<open>
  Claim C10, amended. For a configuration with a name and a model with one observable:
  without a fitting section the constructor succeeds whether or not \<^verbatim>\<open>out_dir\<close> is
  there, and leaves \<^verbatim>\<open>_out_dir\<close> unset; with a fitting section it succeeds when
  \<^verbatim>\<open>out_dir\<close> is there, and raises \<^verbatim>\<open>KeyError('out_dir')\<close> when it is not.
\<close>

theorem out_dir_needed_with_fitting:
  assumes "cfg_name c = Some name" and "pdf_obs p = [obs_name]"
  shows "(cfg_fitting c = None \<longrightarrow>
            MCFitter_init mini c df p =
              Inr \<lparr>mc_name = name, mc_fit_cfg = None, mc_plt_cfg = cfg_plotting c,
                   mc_out_dir = None, mc_rdf = df, mc_pdf = p, mc_obs = pdf_space p,
                   mc_obs_name = obs_name, mc_minimizer = mini\<rparr>) \<and>
         (cfg_fitting c \<noteq> None \<and> cfg_out_dir c = Some d \<longrightarrow>
            MCFitter_init mini c df p =
              Inr \<lparr>mc_name = name, mc_fit_cfg = cfg_fitting c, mc_plt_cfg = cfg_plotting c,
                   mc_out_dir = Some d, mc_rdf = df, mc_pdf = p, mc_obs = pdf_space p,
                   mc_obs_name = obs_name, mc_minimizer = mini\<rparr>) \<and>
         (cfg_fitting c \<noteq> None \<and> cfg_out_dir c = None \<longrightarrow>
            MCFitter_init mini c df p = Inl (KeyError ''out_dir''))"
  using assms by (simp add: MCFitter_init_def)

theorem out_dir_needed_with_fitting_witness:
  "cfg_name (ex_cfg\<lparr>cfg_fitting := None, cfg_out_dir := None\<rparr>) = Some ''signal'' \<and>
   pdf_obs ex_pdf = [''mass''] \<and>
   cfg_fitting (ex_cfg\<lparr>cfg_fitting := None, cfg_out_dir := None\<rparr>) = None \<and>
   cfg_out_dir (ex_cfg\<lparr>cfg_fitting := None, cfg_out_dir := None\<rparr>) = None \<and>
   MCFitter_init ex_minimizer (ex_cfg\<lparr>cfg_fitting := None, cfg_out_dir := None\<rparr>) (Some ex_rdf) ex_pdf =
     Inr (ex_mc\<lparr>mc_fit_cfg := None, mc_out_dir := None\<rparr>) \<and>
   cfg_fitting ex_cfg \<noteq> None \<and> cfg_out_dir ex_cfg = Some ''/tmp/rx'' \<and>
   MCFitter_init ex_minimizer ex_cfg (Some ex_rdf) ex_pdf = Inr ex_mc \<and>
   MCFitter_init ex_minimizer (ex_cfg\<lparr>cfg_plotting := None, cfg_out_dir := None\<rparr>) None ex_pdf =
     Inl (KeyError ''out_dir'')"
proof -
  have n: "cfg_name (ex_cfg\<lparr>cfg_fitting := None, cfg_out_dir := None\<rparr>) = Some ''signal''"
    and n': "cfg_name ex_cfg = Some ''signal''"
    and n'': "cfg_name (ex_cfg\<lparr>cfg_plotting := None, cfg_out_dir := None\<rparr>) = Some ''signal''"
    and o: "pdf_obs ex_pdf = [''mass'']"
    by (simp_all add: ex_cfg_def ex_pdf_def)
  show ?thesis
    using out_dir_needed_with_fitting [OF n o, where mini = ex_minimizer and df = "Some ex_rdf"]
      out_dir_needed_with_fitting [OF n' o, where mini = ex_minimizer and df = "Some ex_rdf"
        and d = "''/tmp/rx''"]
      out_dir_needed_with_fitting [OF n'' o, where mini = ex_minimizer and df = None]
    by (simp add: ex_cfg_def ex_pdf_def ex_mc_def)
qed

section \<open>The fit\<close>

text \<open>
  Claim C3, as the spec states it: with an error method other than \<^verbatim>\<open>minuit_hesse\<close> the
  fit fails and the minimizer is never invoked. \<^verbatim>\<open>_fit\<close> calls
  \<^verbatim>\<open>self._minimizer.minimize(nll)\<close> first and hands the result to \<^verbatim>\<open>_res_to_par\<close>,
  which is where the method is tested: with \<^verbatim>\<open>bootstrap\<close> the trace of \<^verbatim>\<open>_fit\<close> holds
  the minimisation, and then the fit fails.
\<close>

theorem unsupported_method_counterexample:
  "mc_fit_cfg (ex_mc\<lparr>mc_fit_cfg := Some ex_bootstrap\<rparr>) = Some ex_bootstrap \<and>
   ex_bootstrap ''error_method'' = Some ''bootstrap'' \<and>
   fst (MCFitter_fit (ex_mc\<lparr>mc_fit_cfg := Some ex_bootstrap\<rparr>) ex_zdata ex_env) =
     Inl (NotImplementedError ''Method bootstrap not implemented, only minuit_hesse allowed'') \<and>
   trace (snd (snd (MCFitter_fit (ex_mc\<lparr>mc_fit_cfg := Some ex_bootstrap\<rparr>) ex_zdata ex_env))) =
     [Log INFO (Fitting_component ''signal''), PrintPdf, Minimize, PrintResult]"
  by (simp add: mc_defs ex_defs)

text \<open>
  Claim C3, amended. With a configured error method other than \<^verbatim>\<open>minuit_hesse\<close>,
  \<^verbatim>\<open>_fit\<close> of either class fails with \<^verbatim>\<open>NotImplementedError\<close> (the code's rendering of
  the spec's UnsupportedMethodError) after the minimizer has run once: the model holds the
  parameters as the minimizer left them, and the trace ends with the minimisation and the
  printed result. No Hessian is computed, the result is not frozen, and no parameter set
  is returned.
\<close>

theorem unsupported_method_rejected_after_minimize:
  assumes "method \<noteq> ''minuit_hesse''"
  shows "(mc_fit_cfg mc = Some fit_cfg \<and> fit_cfg ''error_method'' = Some method \<longrightarrow>
           MCFitter_fit mc zdt w =
             (Inl (NotImplementedError
                     (''Method '' @ method @ '' not implemented, only minuit_hesse allowed'')),
              mc\<lparr>mc_pdf := fst (mc_minimizer mc (mc_pdf mc) zdt)\<rparr>,
              emit [Log INFO (Fitting_component (mc_name mc)), PrintPdf, Minimize, PrintResult] w)) \<and>
         (fc_fit_cfg fc = Some fit_cfg \<and> fit_cfg ''error_method'' = Some method \<longrightarrow>
           FitComponent_fit fc zdt w =
             (Inl (NotImplementedError
                     (''Method '' @ method @ '' not implemented, only minuit_hesse allowed'')),
              fc\<lparr>fc_pdf := fst (fc_minimizer fc (fc_pdf fc) zdt)\<rparr>,
              emit [Log INFO (Fitting_component (fc_name fc)), PrintPdf, Minimize, PrintResult] w))"
  using assms
  by (simp add: MCFitter_fit_def MCFitter_res_to_par_def FitComponent_fit_def
        FitComponent_res_to_par_def emit_def Let_def split: prod.splits)

theorem unsupported_method_rejected_after_minimize_witness:
  "''bootstrap'' \<noteq> ''minuit_hesse'' \<and>
   mc_fit_cfg (ex_mc\<lparr>mc_fit_cfg := Some ex_bootstrap\<rparr>) = Some ex_bootstrap \<and>
   ex_bootstrap ''error_method'' = Some ''bootstrap'' \<and>
   MCFitter_fit (ex_mc\<lparr>mc_fit_cfg := Some ex_bootstrap\<rparr>) ex_zdata ex_env =
     (Inl (NotImplementedError ''Method bootstrap not implemented, only minuit_hesse allowed''),
      ex_mc\<lparr>mc_fit_cfg := Some ex_bootstrap, mc_pdf := ex_fitted_pdf\<rparr>,
      \<lparr>files = Map.empty,
       trace = [Log INFO (Fitting_component ''signal''), PrintPdf, Minimize, PrintResult]\<rparr>) \<and>
   FitComponent_fit (ex_fc\<lparr>fc_fit_cfg := Some ex_bootstrap\<rparr>) ex_zdata ex_env =
     (Inl (NotImplementedError ''Method bootstrap not implemented, only minuit_hesse allowed''),
      ex_fc\<lparr>fc_fit_cfg := Some ex_bootstrap, fc_pdf := ex_fitted_pdf\<rparr>,
      \<lparr>files = Map.empty,
       trace = [Log INFO (Fitting_component ''signal''), PrintPdf, Minimize, PrintResult]\<rparr>)"
proof -
  have m: "''bootstrap'' \<noteq> ''minuit_hesse''" by simp
  show ?thesis
    using unsupported_method_rejected_after_minimize [OF m,
        where mc = "ex_mc\<lparr>mc_fit_cfg := Some ex_bootstrap\<rparr>" and fit_cfg = ex_bootstrap
          and zdt = ex_zdata and w = ex_env and fc = "ex_fc\<lparr>fc_fit_cfg := Some ex_bootstrap\<rparr>"]
    by (simp add: ex_mc_def ex_fc_def ex_bootstrap_def ex_env_def ex_minimizer_def emit_def)
qed

section \<open>The weighted dataset\<close>

text \<open>
  Claim C7. For every dataframe and weight column name: when the column is among the
  dataframe's columns, \<^verbatim>\<open>_add_weights\<close> returns the dataframe it was given and logs
  that the column was found; when it is not, \<^verbatim>\<open>_add_weights\<close> returns the dataframe
  with that column defined as the constant one, logs the substitution, and has no
  failing path. On a dataframe whose columns all hold one value per entry and that has
  the observable's column, the column of ones is as long as the observable's column, and
  \<^verbatim>\<open>_get_data\<close> returns the events within the limits of the observable space, each
  with the weight the source has for it, or with the weight one. Both classes behave
  alike, up to the expression \<^verbatim>\<open>'1.0'\<close> or \<^verbatim>\<open>'1'\<close> they define.
\<close>

theorem weights_default_to_ones:
  "(wgt \<in> set (rdf_GetColumnNames df) \<longrightarrow>
      MCFitter_add_weights df wgt w = (df, emit [GetColumnNames, Log DEBUG (Weights_found wgt)] w) \<and>
      FitComponent_add_weights df wgt w = (df, emit [GetColumnNames, Log DEBUG (Weights_found wgt)] w)) \<and>
   (wgt \<notin> set (rdf_GetColumnNames df) \<longrightarrow>
      MCFitter_add_weights df wgt w =
        (df\<lparr>columns := columns df @ [(wgt, replicate (nentries df) 1)]\<rparr>,
         emit [GetColumnNames, Log DEBUG (Weights_not_found wgt), Define wgt ''1.0''] w) \<and>
      FitComponent_add_weights df wgt w =
        (df\<lparr>columns := columns df @ [(wgt, replicate (nentries df) 1)]\<rparr>,
         emit [GetColumnNames, Log DEBUG (Weights_not_found wgt), Define wgt ''1''] w)) \<and>
   (rdf_wf df \<and> map_of (columns df) obs_name = Some arr_obs \<longrightarrow>
      (wgt \<notin> set (rdf_GetColumnNames df) \<longrightarrow>
         map_of (columns (fst (MCFitter_add_weights df wgt w))) wgt =
           Some (replicate (length arr_obs) 1) \<and>
         map_of (columns (fst (FitComponent_add_weights df wgt w))) wgt =
           Some (replicate (length arr_obs) 1) \<and>
         map_of (columns (fst (MCFitter_add_weights df wgt w))) obs_name = Some arr_obs \<and>
         map_of (columns (fst (FitComponent_add_weights df wgt w))) obs_name = Some arr_obs) \<and>
      (fit_cfg ''weights_column'' = Some wgt \<and>
       mc_fit_cfg mc = Some fit_cfg \<and> mc_rdf mc = Some df \<and> mc_obs_name mc = obs_name \<longrightarrow>
         fst (MCFitter_get_data mc w) =
           Inr \<lparr>zd_obs = filter (mc_obs mc) arr_obs,
                zd_weights =
                  (case map_of (columns df) wgt of
                     Some arr_wgt \<Rightarrow>
                       map snd (filter (\<lambda>xw. mc_obs mc (fst xw)) (zip arr_obs arr_wgt))
                   | None \<Rightarrow> replicate (length (filter (mc_obs mc) arr_obs)) 1)\<rparr>) \<and>
      (fit_cfg ''weights_column'' = Some wgt \<and>
       fc_fit_cfg fc = Some fit_cfg \<and> fc_rdf fc = Some df \<and> fc_obs_name fc = obs_name \<longrightarrow>
         fst (FitComponent_get_data fc w) =
           Inr \<lparr>zd_obs = filter (fc_obs fc) arr_obs,
                zd_weights =
                  (case map_of (columns df) wgt of
                     Some arr_wgt \<Rightarrow>
                       map snd (filter (\<lambda>xw. fc_obs fc (fst xw)) (zip arr_obs arr_wgt))
                   | None \<Rightarrow> replicate (length (filter (fc_obs fc) arr_obs)) 1)\<rparr>))"
proof -
  have len: "nentries df = length arr_obs"
    if "rdf_wf df" and "map_of (columns df) obs_name = Some arr_obs"
    using rdf_wf_length [OF that] by simp
  have absent: "map_of (columns df @ [(wgt, ones)]) wgt = Some ones \<and>
      map_of (columns df @ [(wgt, ones)]) obs_name = Some arr_obs"
    if "wgt \<notin> set (rdf_GetColumnNames df)" and "map_of (columns df) obs_name = Some arr_obs"
    for ones
  proof -
    from that(1) have "map_of (columns df) wgt = None"
      by (simp add: rdf_GetColumnNames_def map_of_eq_None_iff)
    with that(2) show ?thesis by (auto simp add: map_add_def)
  qed
  have data: "from_numpy obs arr_obs
        (case map_of (columns df) wgt of Some arr_wgt \<Rightarrow> arr_wgt
         | None \<Rightarrow> replicate (nentries df) 1) =
      Inr \<lparr>zd_obs = filter obs arr_obs,
           zd_weights =
             (case map_of (columns df) wgt of
                Some arr_wgt \<Rightarrow> map snd (filter (\<lambda>xw. obs (fst xw)) (zip arr_obs arr_wgt))
              | None \<Rightarrow> replicate (length (filter obs arr_obs)) 1)\<rparr>"
    if "rdf_wf df" and "map_of (columns df) obs_name = Some arr_obs" for obs
  proof (cases "map_of (columns df) wgt")
    case None
    with len [OF that] show ?thesis by (simp add: from_numpy_ones)
  next
    case (Some arr_wgt)
    with that have "length arr_wgt = length arr_obs"
      using rdf_wf_length [of df wgt arr_wgt] rdf_wf_length [of df obs_name arr_obs] by simp
    with Some show ?thesis by (simp add: from_numpy_Inr)
  qed
  show ?thesis
    using len absent data
    by (auto simp add: MCFitter_add_weights_eq FitComponent_add_weights_eq
          MCFitter_get_data_ok FitComponent_get_data_ok)
qed

theorem weights_default_to_ones_witness:
  "''weights'' \<notin> set (rdf_GetColumnNames ex_rdf) \<and>
   fst (MCFitter_add_weights ex_rdf ''weights'' ex_env) =
     \<lparr>nentries = 3, columns = [(''mass'', [5290, 5300, 5310]), (''weights'', [1, 1, 1])]\<rparr> \<and>
   trace (snd (FitComponent_add_weights ex_rdf ''weights'' ex_env)) =
     [GetColumnNames, Log DEBUG (Weights_not_found ''weights''), Define ''weights'' ''1''] \<and>
   rdf_wf ex_rdf \<and> map_of (columns ex_rdf) ''mass'' = Some [5290, 5300, 5310] \<and>
   ex_fitting ''weights_column'' = Some ''weights'' \<and>
   fst (MCFitter_get_data ex_mc ex_env) =
     Inr \<lparr>zd_obs = [5290, 5300, 5310], zd_weights = [1, 1, 1]\<rparr> \<and>
   ''weights'' \<in> set (rdf_GetColumnNames ex_rdf_weighted) \<and>
   MCFitter_add_weights ex_rdf_weighted ''weights'' ex_env =
     (ex_rdf_weighted, \<lparr>files = Map.empty,
                         trace = [GetColumnNames, Log DEBUG (Weights_found ''weights'')]\<rparr>) \<and>
   rdf_wf ex_rdf_weighted \<and>
   map_of (columns ex_rdf_weighted) ''mass'' = Some [5290, 5300, 6100] \<and>
   fst (FitComponent_get_data (ex_fc\<lparr>fc_rdf := Some ex_rdf_weighted\<rparr>) ex_env) =
     Inr \<lparr>zd_obs = [5290, 5300], zd_weights = [2, 1]\<rparr>"
  using weights_default_to_ones [where wgt = "''weights''" and df = ex_rdf and w = ex_env
      and obs_name = "''mass''" and arr_obs = "[5290, 5300, 5310]" and fit_cfg = ex_fitting
      and mc = ex_mc and fc = ex_fc]
    weights_default_to_ones [where wgt = "''weights''" and df = ex_rdf_weighted and w = ex_env
      and obs_name = "''mass''" and arr_obs = "[5290, 5300, 6100]" and fit_cfg = ex_fitting
      and mc = "ex_mc\<lparr>mc_rdf := Some ex_rdf_weighted\<rparr>"
      and fc = "ex_fc\<lparr>fc_rdf := Some ex_rdf_weighted\<rparr>"]
  by (simp add: ex_defs rdf_GetColumnNames_def rdf_wf_def emit_def numeral_3_eq_3)

section \<open>The entry points with a fit\<close>

text \<open>
  Claim C1, as stated: whenever \<^verbatim>\<open>MCFitter.run\<close> returns, every parameter of the model
  whose name is in the returned parameter set and does not end with \<^verbatim>\<open>_flt\<close> holds
  the fitted value and is not floating. \<^verbatim>\<open>_fix_tails\<close> runs over
  \<^verbatim>\<open>get_params()\<close>, the floating parameters. Below, the model comes with \<^verbatim>\<open>sg\<close>
  fixed at 10 and the record of an earlier run holds 12 for it: the run loads the record
  and returns, and \<^verbatim>\<open>sg\<close> is still 10.
\<close>

theorem cached_run_leaves_fixed_parameter_counterexample:
  "mc_fit_cfg (ex_mc\<lparr>mc_pdf := ex_pdf_fixed\<rparr>) \<noteq> None \<and>
   mc_rdf (ex_mc\<lparr>mc_pdf := ex_pdf_fixed\<rparr>) \<noteq> None \<and>
   map par_state (pdf_params (mc_pdf (ex_mc\<lparr>mc_pdf := ex_pdf_fixed\<rparr>))) =
     [(''mu_flt'', 5300, True), (''sg'', 10, False)] \<and>
   fst (MCFitter_run (ex_mc\<lparr>mc_pdf := ex_pdf_fixed\<rparr>) ex_env_cached) = Inr (Ret_par ex_par) \<and>
   ex_par ''sg'' = Some (12, 1) \<and> \<not> endswith ''sg'' ''_flt'' \<and>
   map par_state
     (pdf_params (mc_pdf (fst (snd (MCFitter_run (ex_mc\<lparr>mc_pdf := ex_pdf_fixed\<rparr>) ex_env_cached))))) =
     [(''mu_flt'', 5300, True), (''sg'', 10, False)]"
  by (simp add: mc_defs ex_defs)

text \<open>
  Claim C1, amended. Whenever \<^verbatim>\<open>MCFitter.run\<close>, on an object with a fitting section and
  a dataframe, returns, it returns a parameter set, and the last thing it did, whether
  the parameters were fitted or loaded from the record, was \<^verbatim>\<open>_fix_tails\<close> with that
  parameter set, on the object with the model as it was given (record found) or as the
  fit left it (no record). On return every parameter of that model that was floating,
  whose name is in the returned parameter set and does not end with \<^verbatim>\<open>_flt\<close>, holds
  the fitted value and is not floating, and every parameter that was already fixed is as
  it was.
\<close>

theorem run_ends_with_tail_fixing:
  assumes "mc_fit_cfg mc \<noteq> None" and "mc_rdf mc \<noteq> None"
    and "MCFitter_run mc w = (Inr r, mc', w')"
  shows "\<exists>par model w0.
           r = Ret_par par \<and>
           (model = mc_pdf mc \<or> (\<exists>zdt. model = fst (mc_minimizer mc (mc_pdf mc) zdt))) \<and>
           MCFitter_fix_tails (mc\<lparr>mc_pdf := model\<rparr>) par w0 = (Inr (), mc', w') \<and>
           length (pdf_params (mc_pdf mc')) = length (pdf_params model) \<and>
           (\<forall>i < length (pdf_params model).
              (par_floating (pdf_params model ! i) \<longrightarrow>
                 (\<forall>val err.
                    par (par_name (pdf_params model ! i)) = Some (val, err) \<and>
                    \<not> endswith (par_name (pdf_params model ! i)) ''_flt'' \<longrightarrow>
                    pdf_params (mc_pdf mc') ! i =
                      (pdf_params model ! i)\<lparr>par_value := val, par_floating := False\<rparr>)) \<and>
              (\<not> par_floating (pdf_params model ! i) \<longrightarrow>
                 pdf_params (mc_pdf mc') ! i = pdf_params model ! i))"
proof -
  have tails: "length (pdf_params (mc_pdf mc')) = length (pdf_params model) \<and>
      (\<forall>i < length (pdf_params model).
         (par_floating (pdf_params model ! i) \<longrightarrow>
            (\<forall>val err.
               par (par_name (pdf_params model ! i)) = Some (val, err) \<and>
               \<not> endswith (par_name (pdf_params model ! i)) ''_flt'' \<longrightarrow>
               pdf_params (mc_pdf mc') ! i =
                 (pdf_params model ! i)\<lparr>par_value := val, par_floating := False\<rparr>)) \<and>
         (\<not> par_floating (pdf_params model ! i) \<longrightarrow>
            pdf_params (mc_pdf mc') ! i = pdf_params model ! i))"
    if t: "MCFitter_fix_tails (mc\<lparr>mc_pdf := model\<rparr>) par w0 = (Inr (), mc', w')"
    for par model w0
  proof -
    have "length (pdf_params (mc_pdf mc')) = length (pdf_params model)"
      using MCFitter_fix_tails_length [of "mc\<lparr>mc_pdf := model\<rparr>" par w0] t by simp
    moreover have "pdf_params (mc_pdf mc') ! i =
        (pdf_params model ! i)\<lparr>par_value := val, par_floating := False\<rparr>"
      if "i < length (pdf_params model)" "par_floating (pdf_params model ! i)"
        "par (par_name (pdf_params model ! i)) = Some (val, err)"
        "\<not> endswith (par_name (pdf_params model ! i)) ''_flt''" for i val err
      using MCFitter_fix_tails_Inr(1) [OF t, of i val err] that by simp
    moreover have "pdf_params (mc_pdf mc') ! i = pdf_params model ! i"
      if "i < length (pdf_params model)" "\<not> par_floating (pdf_params model ! i)" for i
      using MCFitter_fix_tails_Inr(2) [OF t, of i] that by simp
    ultimately show ?thesis by blast
  qed
  from assms show ?thesis
  proof (cases rule: MCFitter_run_Inr)
    case (fresh out_dir zdt w2 par mc1 w3 w4)
    from fresh(4) have "mc1 = mc\<lparr>mc_pdf := fst (mc_minimizer mc (mc_pdf mc) zdt)\<rparr>"
      by (rule MCFitter_fit_Inr)
    with fresh(7) have t: "MCFitter_fix_tails (mc\<lparr>mc_pdf := fst (mc_minimizer mc (mc_pdf mc) zdt)\<rparr>)
        par (to_json par (out_dir @ ''/'' @ mc_name mc @ ''.json'') w4) = (Inr (), mc', w')"
      by simp
    from fresh(6) t tails [OF t] show ?thesis by blast
  next
    case (cached out_dir par)
    from cached(4) have t: "MCFitter_fix_tails (mc\<lparr>mc_pdf := mc_pdf mc\<rparr>) par
        (emit [IsFile (out_dir @ ''/'' @ mc_name mc @ ''.json''),
               Log WARNING (Parameters_found (mc_name mc) (out_dir @ ''/'' @ mc_name mc @ ''.json'')),
               FromJson (out_dir @ ''/'' @ mc_name mc @ ''.json'')] w) = (Inr (), mc', w')"
      by simp
    from cached(3) t tails [OF t] show ?thesis by blast
  qed
qed

theorem run_ends_with_tail_fixing_witness:
  "mc_fit_cfg ex_mc \<noteq> None \<and> mc_rdf ex_mc \<noteq> None \<and>
   fst (MCFitter_run ex_mc ex_env) = Inr (Ret_par ex_par) \<and>
   map par_state (pdf_params (mc_pdf (fst (snd (MCFitter_run ex_mc ex_env))))) =
     [(''mu_flt'', 5301, True), (''sg'', 12, False)] \<and>
   map par_state (pdf_params (mc_pdf ex_mc)) = [(''mu_flt'', 5300, True), (''sg'', 10, True)] \<and>
   fst (MCFitter_run ex_mc ex_env_cached) = Inr (Ret_par ex_par) \<and>
   map par_state (pdf_params (mc_pdf (fst (snd (MCFitter_run ex_mc ex_env_cached))))) =
     [(''mu_flt'', 5300, True), (''sg'', 12, False)] \<and>
   ex_par ''sg'' = Some (12, 1) \<and> \<not> endswith ''sg'' ''_flt''"
proof -
  have c: "mc_fit_cfg ex_mc \<noteq> None" and d: "mc_rdf ex_mc \<noteq> None"
    by (simp_all add: ex_mc_def)
  have f: "MCFitter_run ex_mc ex_env =
      (Inr (Ret_par ex_par), fst (snd (MCFitter_run ex_mc ex_env)),
       snd (snd (MCFitter_run ex_mc ex_env)))"
    by (simp add: prod_eq_iff) (simp add: mc_defs ex_defs)
  have g: "MCFitter_run ex_mc ex_env_cached =
      (Inr (Ret_par ex_par), fst (snd (MCFitter_run ex_mc ex_env_cached)),
       snd (snd (MCFitter_run ex_mc ex_env_cached)))"
    by (simp add: prod_eq_iff) (simp add: mc_defs ex_defs)
  show ?thesis
    using run_ends_with_tail_fixing [OF c d f] run_ends_with_tail_fixing [OF c d g]
    by (simp add: mc_defs ex_defs)
qed

section \<open>The cache protocol\<close>

text \<open>
  Claim C2, as the spec states it: with a fitting section and a dataframe, a run that
  finds no record at \<^verbatim>\<open>{out_dir}/{name}.json\<close> builds the dataset, fits, plots and
  writes the record. \<^verbatim>\<open>_plot_fit\<close> returns after a warning when the object has no
  plotting section: the run below, of the docstring's configuration without its
  \<^verbatim>\<open>plotting\<close> section, fits and writes the record, and its trace holds no plot.
\<close>

theorem fresh_run_without_plot_counterexample:
  "mc_fit_cfg (ex_mc\<lparr>mc_plt_cfg := None\<rparr>) \<noteq> None \<and>
   mc_rdf (ex_mc\<lparr>mc_plt_cfg := None\<rparr>) \<noteq> None \<and>
   mc_out_dir (ex_mc\<lparr>mc_plt_cfg := None\<rparr>) = Some ''/tmp/rx'' \<and>
   mc_name (ex_mc\<lparr>mc_plt_cfg := None\<rparr>) = ''signal'' \<and>
   ''/tmp/rx/signal.json'' \<notin> dom (files ex_env) \<and>
   fst (MCFitter_run (ex_mc\<lparr>mc_plt_cfg := None\<rparr>) ex_env) = Inr (Ret_par ex_par) \<and>
   trace (snd (snd (MCFitter_run (ex_mc\<lparr>mc_plt_cfg := None\<rparr>) ex_env))) =
     [IsFile ''/tmp/rx/signal.json'', GetColumnNames,
      Log DEBUG (Weights_not_found ''weights''), Define ''weights'' ''1.0'',
      AsNumpy [''mass'', ''weights''], Log INFO (Fitting_component ''signal''),
      PrintPdf, Minimize, PrintResult, Hesse ''minuit_hesse'', Freeze,
      Log WARNING No_plotting_configuration, ToJson ''/tmp/rx/signal.json'',
      Log INFO Dashes, Log INFO Fixing_tails, Log INFO Dashes,
      Log DEBUG (Not_fixing ''mu_flt''), Log INFO (Fixed_to ''sg'' 12)]"
  by (simp add: mc_defs ex_defs)

text \<open>
  Claim C2, amended. Whenever \<^verbatim>\<open>MCFitter.run\<close>, on an object with a fitting section and
  a dataframe, returns, what it did is decided by whether the record
  \<^verbatim>\<open>{out_dir}/{name}.json\<close> exists, and by that alone. If the record does not exist,
  it built the dataset, fitted (minimisation, Hessian, freeze), plotted when the object
  has a plotting section and logged a warning instead when it has none, wrote the fitted
  parameter set to the record, and fixed the tails, in this order. If the record exists,
  it returned the parameter set of the record: besides the look at the file and the
  reading of the record it only logged, so it neither fitted nor plotted, and it wrote
  no record.
\<close>

theorem run_cache_protocol:
  assumes "mc_fit_cfg mc \<noteq> None" and "mc_rdf mc \<noteq> None"
    and "MCFitter_run mc w = (Inr r, mc', w')"
  shows "\<exists>out_dir par.
           mc_out_dir mc = Some out_dir \<and> r = Ret_par par \<and>
           (let pars_path = out_dir @ ''/'' @ mc_name mc @ ''.json'';
                plot_path = out_dir @ ''/'' @ mc_name mc @ ''.png''
            in if pars_path \<in> dom (files w)
               then files w pars_path = Some par \<and>
                    files w' = files w \<and>
                    MCFitter_fix_tails mc par
                      (emit [IsFile pars_path,
                             Log WARNING (Parameters_found (mc_name mc) pars_path),
                             FromJson pars_path] w) = (Inr (), mc', w') \<and>
                    (\<exists>evs. trace w' = trace w @ IsFile pars_path #
                              Log WARNING (Parameters_found (mc_name mc) pars_path) #
                              FromJson pars_path # evs \<and>
                           list_all is_log evs)
               else (\<exists>zdt w2 mc1 w3 evs.
                       MCFitter_get_data mc (emit [IsFile pars_path] w) = (Inr zdt, w2) \<and>
                       MCFitter_fit mc zdt w2 = (Inr par, mc1, w3) \<and>
                       MCFitter_fix_tails mc1 par
                         (to_json par pars_path
                            (emit (case mc_plt_cfg mc of
                                     None \<Rightarrow> [Log WARNING No_plotting_configuration]
                                   | Some plt_cfg \<Rightarrow>
                                       [MakeDirs out_dir, Plot plt_cfg,
                                        Log INFO (Saving_fit_plot plot_path),
                                        SaveFig plot_path]) w3)) = (Inr (), mc', w') \<and>
                       files w' = (files w)(pars_path \<mapsto> par) \<and>
                       trace w' = trace w2 @
                         [Log INFO (Fitting_component (mc_name mc)), PrintPdf, Minimize,
                          PrintResult, Hesse ''minuit_hesse'', Freeze] @
                         (case mc_plt_cfg mc of
                            None \<Rightarrow> [Log WARNING No_plotting_configuration]
                          | Some plt_cfg \<Rightarrow>
                              [MakeDirs out_dir, Plot plt_cfg,
                               Log INFO (Saving_fit_plot plot_path), SaveFig plot_path]) @
                         ToJson pars_path # evs \<and>
                       list_all is_log evs))"
    (is "\<exists>out_dir par. _ \<and> _ \<and> ?P out_dir par")
  using assms
proof (cases rule: MCFitter_run_Inr)
  case (fresh out_dir zdt w2 par mc1 w3 w4)
  let ?path = "out_dir @ ''/'' @ mc_name mc @ ''.json''"
  let ?png = "out_dir @ ''/'' @ mc_name mc @ ''.png''"
  let ?plot = "case mc_plt_cfg mc of
                 None \<Rightarrow> [Log WARNING No_plotting_configuration]
               | Some plt_cfg \<Rightarrow>
                   [MakeDirs out_dir, Plot plt_cfg, Log INFO (Saving_fit_plot ?png), SaveFig ?png]"
  have mc1: "mc1 = mc\<lparr>mc_pdf := fst (mc_minimizer mc (mc_pdf mc) zdt)\<rparr>"
    and w3: "w3 = emit [Log INFO (Fitting_component (mc_name mc)), PrintPdf, Minimize, PrintResult,
                        Hesse ''minuit_hesse'', Freeze] w2"
    using fresh(4) by (rule MCFitter_fit_Inr)+
  have w4: "w4 = emit ?plot w3"
    using MCFitter_plot_fit_Inr [OF fresh(5), of out_dir] fresh(1)
    by (simp add: mc1 cong: option.case_cong)
  have w2: "files w2 = files w"
    using MCFitter_get_data_files [of mc "emit [IsFile ?path] w"] fresh(3) by (simp add: files_emit)
  have tails: "MCFitter_fix_tails mc1 par (to_json par ?path (emit ?plot w3)) = (Inr (), mc', w')"
    using fresh(7) w4 by simp
  then have w': "w' = snd (snd (MCFitter_fix_tails mc1 par (to_json par ?path (emit ?plot w3))))"
    by simp
  have files: "files w' = (files w)(?path \<mapsto> par)"
    unfolding w' by (simp add: MCFitter_fix_tails_files to_json_def files_emit w3 w2)
  obtain evs where "trace w' = trace (to_json par ?path (emit ?plot w3)) @ evs"
    and logs: "list_all is_log evs"
    unfolding w' using MCFitter_fix_tails_logs by blast
  then have trace: "trace w' = trace w2 @
      [Log INFO (Fitting_component (mc_name mc)), PrintPdf, Minimize, PrintResult,
       Hesse ''minuit_hesse'', Freeze] @ ?plot @ ToJson ?path # evs"
    by (simp add: to_json_def trace_emit w3)
  show ?thesis
  proof (intro exI conjI)
    show "mc_out_dir mc = Some out_dir" and "r = Ret_par par" by fact+
    show "?P out_dir par"
      unfolding Let_def if_not_P [OF fresh(2)]
      using fresh(3,4) tails files trace logs by blast
  qed
next
  case (cached out_dir par)
  let ?path = "out_dir @ ''/'' @ mc_name mc @ ''.json''"
  let ?w0 = "emit [IsFile ?path, Log WARNING (Parameters_found (mc_name mc) ?path), FromJson ?path] w"
  from cached(4) have w': "w' = snd (snd (MCFitter_fix_tails mc par ?w0))"
    by simp
  have files: "files w' = files w"
    unfolding w' by (simp add: MCFitter_fix_tails_files files_emit)
  obtain evs where "trace w' = trace ?w0 @ evs" and logs: "list_all is_log evs"
    unfolding w' using MCFitter_fix_tails_logs by blast
  then have trace: "trace w' = trace w @ IsFile ?path #
      Log WARNING (Parameters_found (mc_name mc) ?path) # FromJson ?path # evs"
    by (simp add: trace_emit)
  have found: "?path \<in> dom (files w)"
    using cached(2) by (rule domI)
  show ?thesis
  proof (intro exI conjI)
    show "mc_out_dir mc = Some out_dir" and "r = Ret_par par" by fact+
    show "?P out_dir par"
      unfolding Let_def if_P [OF found]
      using cached(2,4) files trace logs by blast
  qed
qed

theorem run_cache_protocol_witness:
  "mc_fit_cfg ex_mc \<noteq> None \<and> mc_rdf ex_mc \<noteq> None \<and>
   ''/tmp/rx/signal.json'' \<notin> dom (files ex_env) \<and>
   fst (MCFitter_run ex_mc ex_env) = Inr (Ret_par ex_par) \<and>
   files (snd (snd (MCFitter_run ex_mc ex_env))) ''/tmp/rx/signal.json'' = Some ex_par \<and>
   trace (snd (snd (MCFitter_run ex_mc ex_env))) =
     [IsFile ''/tmp/rx/signal.json'', GetColumnNames,
      Log DEBUG (Weights_not_found ''weights''), Define ''weights'' ''1.0'',
      AsNumpy [''mass'', ''weights''], Log INFO (Fitting_component ''signal''),
      PrintPdf, Minimize, PrintResult, Hesse ''minuit_hesse'', Freeze,
      MakeDirs ''/tmp/rx'', Plot [(''nbins'', PyInt 50), (''stacked'', PyBool True)],
      Log INFO (Saving_fit_plot ''/tmp/rx/signal.png''), SaveFig ''/tmp/rx/signal.png'',
      ToJson ''/tmp/rx/signal.json'',
      Log INFO Dashes, Log INFO Fixing_tails, Log INFO Dashes,
      Log DEBUG (Not_fixing ''mu_flt''), Log INFO (Fixed_to ''sg'' 12)] \<and>
   ''/tmp/rx/signal.json'' \<in> dom (files ex_env_cached) \<and>
   fst (MCFitter_run ex_mc ex_env_cached) = Inr (Ret_par ex_par) \<and>
   trace (snd (snd (MCFitter_run ex_mc ex_env_cached))) =
     [IsFile ''/tmp/rx/signal.json'',
      Log WARNING (Parameters_found ''signal'' ''/tmp/rx/signal.json''),
      FromJson ''/tmp/rx/signal.json'',
      Log INFO Dashes, Log INFO Fixing_tails, Log INFO Dashes,
      Log DEBUG (Not_fixing ''mu_flt''), Log INFO (Fixed_to ''sg'' 12)]"
proof -
  have c: "mc_fit_cfg ex_mc \<noteq> None" and d: "mc_rdf ex_mc \<noteq> None"
    by (simp_all add: ex_mc_def)
  have f: "MCFitter_run ex_mc ex_env =
      (Inr (Ret_par ex_par), fst (snd (MCFitter_run ex_mc ex_env)),
       snd (snd (MCFitter_run ex_mc ex_env)))"
    by (simp add: prod_eq_iff) (simp add: mc_defs ex_defs)
  have g: "MCFitter_run ex_mc ex_env_cached =
      (Inr (Ret_par ex_par), fst (snd (MCFitter_run ex_mc ex_env_cached)),
       snd (snd (MCFitter_run ex_mc ex_env_cached)))"
    by (simp add: prod_eq_iff) (simp add: mc_defs ex_defs)
  show ?thesis
    using run_cache_protocol [OF c d f] run_cache_protocol [OF c d g]
    by (simp add: mc_defs ex_defs)
qed

end
